theory Spec2Isabelle
  imports Main "HOL-Library.Word"
begin

section \<open>Python values\<close>

text \<open>
  The program is dynamically typed: the arguments of a tool call are whatever
  \<^verbatim>\<open>json.loads\<close> returns, a provider's reply is whatever \<^verbatim>\<open>response.json()\<close> returns,
  and a dispatched attribute returns whatever it returns. \<open>pyval\<close> is the type of these
  values. A \<open>PDict\<close> lists each key once, as a Python dict holds it; \<open>map_of\<close> reads it.
  A float is kept as its 64 bits: the program never computes with one, it only formats
  it. \<open>PObj c\<close> is an object of some other class \<open>c\<close>, opaque here: it is not a
  \<^verbatim>\<open>str\<close>, and the model gives it no subscript and no \<^verbatim>\<open>get\<close>.
  A \<open>string\<close> is a HOL string, a list of code points below 256; every literal of the
  program lies in that range.
\<close>

datatype pyval =
    PNone
  | PBool bool
  | PInt int
  | PFloat "64 word"
  | PStr string
  | PList "pyval list"
  | PDict "(string \<times> pyval) list"
  | PObj string

text \<open>\<^verbatim>\<open>type(v).__name__\<close>, as the interpreter's messages print it.\<close>

fun type_name :: "pyval \<Rightarrow> string" where
  "type_name PNone = ''NoneType''"
| "type_name (PBool _) = ''bool''"
| "type_name (PInt _) = ''int''"
| "type_name (PFloat _) = ''float''"
| "type_name (PStr _) = ''str''"
| "type_name (PList _) = ''list''"
| "type_name (PDict _) = ''dict''"
| "type_name (PObj c) = c"

text \<open>Truth value testing (\<^verbatim>\<open>if x\<close>, \<^verbatim>\<open>not x\<close>, \<^verbatim>\<open>x or y\<close>). Both float zeros are false.\<close>

fun truthy :: "pyval \<Rightarrow> bool" where
  "truthy PNone = False"
| "truthy (PBool b) = b"
| "truthy (PInt i) = (i \<noteq> 0)"
| "truthy (PFloat f) = (f \<noteq> 0 \<and> f \<noteq> 0x8000000000000000)"
| "truthy (PStr s) = (s \<noteq> [])"
| "truthy (PList xs) = (xs \<noteq> [])"
| "truthy (PDict d) = (d \<noteq> [])"
| "truthy (PObj _) = True"

definition quoted :: "string \<Rightarrow> string" where
  "quoted s = CHR 0x27 # s @ [CHR 0x27]"

definition newline :: string where
  "newline = [CHR 0x0A]"

subsection \<open>Decimal rendering of integers\<close>

definition digit :: "nat \<Rightarrow> char" where
  "digit d = ''0123456789'' ! d"

function decimal :: "nat \<Rightarrow> string" where
  "decimal n = (if n < 10 then [digit n] else decimal (n div 10) @ [digit (n mod 10)])"
  by pat_completeness auto
termination
  by (relation "measure (\<lambda>n. n)") auto

declare decimal.simps [simp del]

definition str_int :: "int \<Rightarrow> string" where
  "str_int i = (if i < 0 then CHR ''-'' # decimal (nat (- i)) else decimal (nat i))"

section \<open>Exceptions\<close>

text \<open>
  An exception is its class name and the text \<^verbatim>\<open>str(e)\<close> gives, which is all the
  handlers of this program read. Every exception of the model is an \<^verbatim>\<open>Exception\<close>:
  the signals outside that class (\<^verbatim>\<open>KeyboardInterrupt\<close>, \<^verbatim>\<open>SystemExit\<close>) are not
  modelled. The wording of the interpreter's own messages is that of CPython 3.12;
  no theorem below depends on it.
\<close>

datatype exn = Exn (exn_class: string) (exn_str: string)

text \<open>\<^verbatim>\<open>v[k]\<close> for a string key \<open>k\<close> (the program only uses literal keys).\<close>

fun getitem_str :: "pyval \<Rightarrow> string \<Rightarrow> exn + pyval" where
  "getitem_str (PDict d) k =
     (case map_of d k of
        Some v \<Rightarrow> Inr v
      | None \<Rightarrow> Inl (Exn ''KeyError'' (quoted k)))"
| "getitem_str (PList xs) k =
     Inl (Exn ''TypeError'' ''list indices must be integers or slices, not str'')"
| "getitem_str (PStr s) k =
     Inl (Exn ''TypeError'' (''string indices must be integers, not '' @ quoted ''str''))"
| "getitem_str v k =
     Inl (Exn ''TypeError'' (quoted (type_name v) @ '' object is not subscriptable''))"

text \<open>\<^verbatim>\<open>v[i]\<close> for an integer \<open>i\<close>; a negative index counts back from the end.\<close>

definition seq_index :: "nat \<Rightarrow> int \<Rightarrow> nat option" where
  "seq_index n i =
     (if 0 \<le> i \<and> i < int n then Some (nat i)
      else if i < 0 \<and> - int n \<le> i then Some (nat (int n + i))
      else None)"

fun getitem_int :: "pyval \<Rightarrow> int \<Rightarrow> exn + pyval" where
  "getitem_int (PList xs) i =
     (case seq_index (length xs) i of
        Some j \<Rightarrow> Inr (xs ! j)
      | None \<Rightarrow> Inl (Exn ''IndexError'' ''list index out of range''))"
| "getitem_int (PStr s) i =
     (case seq_index (length s) i of
        Some j \<Rightarrow> Inr (PStr [s ! j])
      | None \<Rightarrow> Inl (Exn ''IndexError'' ''string index out of range''))"
| "getitem_int (PDict d) i = Inl (Exn ''KeyError'' (str_int i))"
| "getitem_int v i =
     Inl (Exn ''TypeError'' (quoted (type_name v) @ '' object is not subscriptable''))"

text \<open>\<^verbatim>\<open>v.get(k)\<close>: a dict answers, with \<^verbatim>\<open>None\<close> for a missing key.\<close>

fun py_get :: "pyval \<Rightarrow> string \<Rightarrow> exn + pyval" where
  "py_get (PDict d) k = Inr (case map_of d k of Some v \<Rightarrow> v | None \<Rightarrow> PNone)"
| "py_get v k =
     Inl (Exn ''AttributeError''
       (quoted (type_name v) @ '' object has no attribute '' @ quoted ''get''))"

section \<open>Actions: state passing with exceptions\<close>

text \<open>
  A statement that may raise and may change the state is a function from the state to
  an outcome (\<open>Inl\<close> the exception raised, \<open>Inr\<close> the value returned) and the state it
  leaves. \<open>and_then\<close> is sequencing: an exception skips what follows and keeps the
  state reached so far.
\<close>

type_synonym ('a, 's) action = "'s \<Rightarrow> (exn + 'a) \<times> 's"

definition returns :: "'a \<Rightarrow> ('a, 's) action" where
  "returns a = (\<lambda>s. (Inr a, s))"

definition raises :: "exn \<Rightarrow> ('a, 's) action" where
  "raises e = (\<lambda>s. (Inl e, s))"

definition lift :: "exn + 'a \<Rightarrow> ('a, 's) action" where
  "lift r = (\<lambda>s. (r, s))"

definition and_then :: "('a, 's) action \<Rightarrow> ('a \<Rightarrow> ('b, 's) action) \<Rightarrow> ('b, 's) action" where
  "and_then m f =
     (\<lambda>s. case m s of
        (Inl e, s') \<Rightarrow> (Inl e, s')
      | (Inr a, s') \<Rightarrow> f a s')"

text \<open>\<^verbatim>\<open>try: m  except Exception as e: h(e)\<close>\<close>

definition try_except :: "('a, 's) action \<Rightarrow> (exn \<Rightarrow> ('a, 's) action) \<Rightarrow> ('a, 's) action" where
  "try_except m h =
     (\<lambda>s. case m s of
        (Inl e, s') \<Rightarrow> h e s'
      | (Inr a, s') \<Rightarrow> (Inr a, s'))"

section \<open>The process state and its surroundings\<close>

text \<open>
  The two objects of the program hold two mutable fields: \<^verbatim>\<open>ToolKit.api_keys\<close> and
  \<^verbatim>\<open>Chatbot.conversation_history\<close>. Everything else the program touches lies outside
  it (network, clock, standard output, the clients of the providers) and is the
  component \<open>outside\<close>, of an arbitrary type \<open>'x\<close>.
\<close>

datatype message = Message (role: string) (content: string)

record 'x state =
  api_keys :: pyval
  conversation_history :: "message list"
  outside :: 'x

text \<open>What \<^verbatim>\<open>requests.get\<close> returns: \<open>response_json\<close> is the outcome of \<^verbatim>\<open>.json()\<close>.\<close>

datatype response = Response (response_json: "exn + pyval")

text \<open>
  The completion service's reply, as far as the program reads it, and the request the
  program sends. The temperature is kept as the source writes it, \<^verbatim>\<open>0.7\<close>.
\<close>

record tool_call =
  function_name :: string
  function_arguments :: string

record chat_message =
  message_content :: "string option"
  message_tool_calls :: "tool_call list option"

record completion =
  choices :: "chat_message list"

record request =
  model :: string
  messages :: "message list"
  tool_choice :: string
  tools :: pyval
  temperature :: string

text \<open>An attribute supplied by the runtime or by a library: its truth value and what calling it with \<^verbatim>\<open>**args\<close> does.\<close>

datatype 'x foreign =
  Foreign (is_true: bool) (call: "pyval \<Rightarrow> 'x \<Rightarrow> (exn + pyval) \<times> 'x")

text \<open>
  The libraries and services the program calls are parameters of the model, so every
  theorem holds whatever they do:
  \<^item> \<open>json_loads\<close>: \<^verbatim>\<open>json.loads\<close>;
  \<^item> \<open>str_other\<close>: \<^verbatim>\<open>str(v)\<close> for a float, list, dict or other object;
  \<^item> \<open>requests_get url params\<close>: \<^verbatim>\<open>requests.get(url, params=params)\<close>;
  \<^item> \<open>py_print\<close>: \<^verbatim>\<open>print\<close>, which may fail on a closed stream;
  \<^item> \<open>completions_create\<close>: \<^verbatim>\<open>client.chat.completions.create\<close>;
  \<^item> \<open>wolfram_Client\<close>: \<^verbatim>\<open>wolframalpha.Client(key)\<close>;
  \<^item> \<open>openai_Client\<close>: \<^verbatim>\<open>OpenAI(api_key=key)\<close>;
  \<^item> \<open>method_body name keys args\<close>: the bodies of \<^verbatim>\<open>get_news\<close>, \<^verbatim>\<open>get_system_metrics\<close>,
    \<^verbatim>\<open>get_current_time_and_date\<close> and \<^verbatim>\<open>ask_wolfram\<close>, run on the bound arguments
    with \<^verbatim>\<open>self.api_keys = keys\<close>;
  \<^item> \<open>foreign_attr name keys\<close>: the attributes of a \<^verbatim>\<open>ToolKit\<close> object that the class
    does not define itself (those of \<^verbatim>\<open>object\<close>, and \<^verbatim>\<open>wolfram_client\<close>).
  They act on \<open>outside\<close> only: none of them holds a reference to the history, and
  called with keyword arguments alone none of them assigns \<^verbatim>\<open>api_keys\<close>.
\<close>

record 'x env =
  json_loads :: "string \<Rightarrow> exn + pyval"
  str_other :: "pyval \<Rightarrow> string"
  requests_get :: "string \<Rightarrow> (string \<times> pyval) list \<Rightarrow> 'x \<Rightarrow> (exn + response) \<times> 'x"
  py_print :: "pyval \<Rightarrow> 'x \<Rightarrow> (exn + unit) \<times> 'x"
  completions_create :: "request \<Rightarrow> 'x \<Rightarrow> (exn + completion) \<times> 'x"
  wolfram_Client :: "pyval \<Rightarrow> 'x \<Rightarrow> (exn + unit) \<times> 'x"
  openai_Client :: "pyval \<Rightarrow> 'x \<Rightarrow> (exn + unit) \<times> 'x"
  method_body :: "string \<Rightarrow> pyval \<Rightarrow> (string \<times> pyval) list \<Rightarrow> 'x \<Rightarrow> (exn + pyval) \<times> 'x"
  foreign_attr :: "string \<Rightarrow> pyval \<Rightarrow> 'x \<Rightarrow> 'x foreign option"

text \<open>An operation on the surroundings, run from the program's state.\<close>

definition external :: "('x \<Rightarrow> (exn + 'a) \<times> 'x) \<Rightarrow> ('a, 'x state) action" where
  "external m = (\<lambda>s. case m (outside s) of (r, x') \<Rightarrow> (r, s\<lparr>outside := x'\<rparr>))"

text \<open>\<^verbatim>\<open>str(v)\<close>, which is also what \<^verbatim>\<open>{v}\<close> in an f-string inserts.\<close>

definition py_str :: "'x env \<Rightarrow> pyval \<Rightarrow> string" where
  "py_str env v =
     (case v of
        PStr s \<Rightarrow> s
      | PInt i \<Rightarrow> str_int i
      | PNone \<Rightarrow> ''None''
      | PBool b \<Rightarrow> (if b then ''True'' else ''False'')
      | _ \<Rightarrow> str_other env v)"

text \<open>Reading \<^verbatim>\<open>self.api_keys\<close> and \<^verbatim>\<open>self.conversation_history\<close>.\<close>

definition self_api_keys :: "(pyval, 'x state) action" where
  "self_api_keys = (\<lambda>s. (Inr (api_keys s), s))"

definition self_conversation_history :: "(message list, 'x state) action" where
  "self_conversation_history = (\<lambda>s. (Inr (conversation_history s), s))"

section \<open>ToolKit\<close>

subsection \<open>\<^verbatim>\<open>ToolKit.__init__\<close>\<close>

definition ToolKit_init :: "'x env \<Rightarrow> pyval \<Rightarrow> (pyval, 'x state) action" where
  "ToolKit_init env keys =
     and_then (\<lambda>s. (Inr (), s\<lparr>api_keys := keys\<rparr>)) (\<lambda>_.
     and_then (lift (py_get keys ''WOLFRAM_API_KEY'')) (\<lambda>k.
     and_then (external (wolfram_Client env k)) (\<lambda>_.
     returns PNone)))"

subsection \<open>\<^verbatim>\<open>ToolKit.get_weather\<close>\<close>

definition degree_sign :: string where
  "degree_sign = [CHR 0xB0]"

definition weather_url :: string where
  "weather_url = ''http://api.openweathermap.org/data/2.5/weather''"

definition weather_params :: "pyval \<Rightarrow> pyval \<Rightarrow> (string \<times> pyval) list" where
  "weather_params city appid = [(''q'', city), (''appid'', appid), (''units'', PStr ''metric'')]"

text \<open>\<^verbatim>\<open>temp = data['main']['temp']\<close>, then \<^verbatim>\<open>desc = data['weather'][0]['description']\<close>.\<close>

definition weather_fields :: "pyval \<Rightarrow> exn + pyval \<times> pyval" where
  "weather_fields data =
     (case getitem_str data ''main'' of Inl e \<Rightarrow> Inl e | Inr main \<Rightarrow>
      case getitem_str main ''temp'' of Inl e \<Rightarrow> Inl e | Inr temp \<Rightarrow>
      case getitem_str data ''weather'' of Inl e \<Rightarrow> Inl e | Inr weather \<Rightarrow>
      case getitem_int weather 0 of Inl e \<Rightarrow> Inl e | Inr weather0 \<Rightarrow>
      case getitem_str weather0 ''description'' of Inl e \<Rightarrow> Inl e | Inr desc \<Rightarrow>
      Inr (temp, desc))"

definition weather_report :: "'x env \<Rightarrow> pyval \<Rightarrow> pyval \<Rightarrow> pyval \<Rightarrow> string" where
  "weather_report env city temp desc =
     ''Current weather in '' @ py_str env city @ '': '' @ py_str env temp
       @ degree_sign @ ''C, '' @ py_str env desc"

text \<open>The body of the \<^verbatim>\<open>try\<close>, statement by statement.\<close>

definition get_weather_try :: "'x env \<Rightarrow> pyval \<Rightarrow> (string, 'x state) action" where
  "get_weather_try env city =
     and_then self_api_keys (\<lambda>keys.
     and_then (lift (py_get keys ''WEATHER_API'')) (\<lambda>appid.
     and_then (external (requests_get env weather_url (weather_params city appid))) (\<lambda>response.
     and_then (lift (response_json response)) (\<lambda>data.
     and_then (external (py_print env data)) (\<lambda>_.
     and_then (lift (weather_fields data)) (\<lambda>(temp, desc).
     returns (weather_report env city temp desc)))))))"

definition weather_error :: "exn \<Rightarrow> string" where
  "weather_error e = ''Error fetching weather data: '' @ exn_str e"

definition get_weather :: "'x env \<Rightarrow> pyval \<Rightarrow> (string, 'x state) action" where
  "get_weather env city =
     try_except (get_weather_try env city)
       (\<lambda>e. returns (weather_error e))"

subsection \<open>\<^verbatim>\<open>ToolKit.get_tool_definitions\<close>\<close>

definition string_property :: "string \<Rightarrow> string \<Rightarrow> string \<times> pyval" where
  "string_property name description =
     (name, PDict [(''type'', PStr ''string''), (''description'', PStr description)])"

definition get_tool_definitions :: pyval where
  "get_tool_definitions =
     PList [
       PDict [
         (''type'', PStr ''function''),
         (''function'', PDict [
            (''name'', PStr ''get_weather''),
            (''description'', PStr ''Get current weather information for a location''),
            (''parameters'', PDict [
               (''type'', PStr ''object''),
               (''properties'', PDict [string_property ''city'' ''The city name, e.g. London'']),
               (''required'', PList [PStr ''city''])])])],
       PDict [
         (''type'', PStr ''function''),
         (''function'', PDict [
            (''name'', PStr ''get_news''),
            (''description'', PStr ''Get latest news headlines, optionally filtered by topic''),
            (''parameters'', PDict [
               (''type'', PStr ''object''),
               (''properties'', PDict [string_property ''topic'' ''Optional topic to filter news''])])])],
       PDict [
         (''type'', PStr ''function''),
         (''function'', PDict [
            (''name'', PStr ''get_system_metrics''),
            (''description'', PStr ''Get current system performance metrics'')])],
       PDict [
         (''type'', PStr ''function''),
         (''function'', PDict [
            (''name'', PStr ''get_current_time_and_date''),
            (''description'', PStr ''Get the current time and date'')])],
       PDict [
         (''type'', PStr ''function''),
         (''function'', PDict [
            (''name'', PStr ''ask_wolfram''),
            (''description'', PStr ''Query Wolfram Alpha for factual information''),
            (''parameters'', PDict [
               (''type'', PStr ''object''),
               (''properties'', PDict [string_property ''query'' ''The query to send to Wolfram Alpha'']),
               (''required'', PList [PStr ''query''])])])]]"

subsection \<open>The attributes of a \<^verbatim>\<open>ToolKit\<close> object\<close>

text \<open>
  \<^verbatim>\<open>getattr(self.toolkit, name, None)\<close> finds the instance field \<^verbatim>\<open>api_keys\<close>, the
  seven methods the class defines, bound to the object, and whatever else the runtime
  gives the object; for any other name it returns the default \<^verbatim>\<open>None\<close>.
\<close>

datatype toolkit_method =
    M_init
  | M_get_weather
  | M_get_news
  | M_get_system_metrics
  | M_get_current_time_and_date
  | M_ask_wolfram
  | M_get_tool_definitions

definition method_table :: "(string \<times> toolkit_method) list" where
  "method_table =
     [(''__init__'', M_init),
      (''get_weather'', M_get_weather),
      (''get_news'', M_get_news),
      (''get_system_metrics'', M_get_system_metrics),
      (''get_current_time_and_date'', M_get_current_time_and_date),
      (''ask_wolfram'', M_ask_wolfram),
      (''get_tool_definitions'', M_get_tool_definitions)]"

datatype 'x attribute =
    DataAttr pyval
  | BoundMethod toolkit_method
  | ForeignAttr "'x foreign"

definition getattr_toolkit :: "'x env \<Rightarrow> string \<Rightarrow> 'x state \<Rightarrow> 'x attribute" where
  "getattr_toolkit env name s =
     (if name = ''api_keys'' then DataAttr (api_keys s)
      else case map_of method_table name of
        Some m \<Rightarrow> BoundMethod m
      | None \<Rightarrow>
          (case foreign_attr env name (api_keys s) (outside s) of
             Some f \<Rightarrow> ForeignAttr f
           | None \<Rightarrow> DataAttr PNone))"

fun attr_truthy :: "'x attribute \<Rightarrow> bool" where
  "attr_truthy (DataAttr v) = truthy v"
| "attr_truthy (BoundMethod m) = True"
| "attr_truthy (ForeignAttr f) = is_true f"

subsection \<open>Calling an attribute with \<^verbatim>\<open>**function_args\<close>\<close>

text \<open>
  Keyword arguments are matched against the parameters in the order the dict lists
  them: the first keyword that names the receiver or no parameter raises; then a
  parameter left without a value takes its default, or raises if it has none. Each
  of these methods has at most one parameter besides the receiver.
\<close>

definition unexpected_kw :: "string \<Rightarrow> string \<Rightarrow> string list \<Rightarrow> (string \<times> pyval) list \<Rightarrow> exn option" where
  "unexpected_kw fname receiver params kw =
     (case filter (\<lambda>k. k \<notin> set params) (map fst kw) of
        [] \<Rightarrow> None
      | k # _ \<Rightarrow>
          Some (Exn ''TypeError''
            (fname @ (if k = receiver then ''() got multiple values for argument ''
                      else ''() got an unexpected keyword argument '') @ quoted k)))"

definition bind0 :: "string \<Rightarrow> string \<Rightarrow> (string \<times> pyval) list \<Rightarrow> exn + unit" where
  "bind0 fname receiver kw =
     (case unexpected_kw fname receiver [] kw of
        Some e \<Rightarrow> Inl e
      | None \<Rightarrow> Inr ())"

definition bind1 :: "string \<Rightarrow> string \<Rightarrow> string \<Rightarrow> pyval option \<Rightarrow> (string \<times> pyval) list \<Rightarrow> exn + pyval" where
  "bind1 fname receiver param dflt kw =
     (case unexpected_kw fname receiver [param] kw of
        Some e \<Rightarrow> Inl e
      | None \<Rightarrow>
          (case map_of kw param of
             Some v \<Rightarrow> Inr v
           | None \<Rightarrow>
               (case dflt of
                  Some d \<Rightarrow> Inr d
                | None \<Rightarrow>
                    Inl (Exn ''TypeError''
                      (fname @ ''() missing 1 required positional argument: '' @ quoted param)))))"

fun call_method :: "'x env \<Rightarrow> toolkit_method \<Rightarrow> (string \<times> pyval) list \<Rightarrow> (pyval, 'x state) action" where
  "call_method env M_init kw =
     and_then (lift (bind1 ''ToolKit.__init__'' ''self'' ''api_keys'' None kw)) (\<lambda>keys.
     ToolKit_init env keys)"
| "call_method env M_get_weather kw =
     and_then (lift (bind1 ''ToolKit.get_weather'' ''self'' ''city'' None kw)) (\<lambda>city.
     and_then (get_weather env city) (\<lambda>r.
     returns (PStr r)))"
| "call_method env M_get_news kw =
     and_then (lift (bind1 ''ToolKit.get_news'' ''self'' ''topic'' (Some PNone) kw)) (\<lambda>topic.
     and_then self_api_keys (\<lambda>keys.
     external (method_body env ''get_news'' keys [(''topic'', topic)])))"
| "call_method env M_get_system_metrics kw =
     and_then (lift (bind0 ''ToolKit.get_system_metrics'' ''self'' kw)) (\<lambda>_.
     and_then self_api_keys (\<lambda>keys.
     external (method_body env ''get_system_metrics'' keys [])))"
| "call_method env M_get_current_time_and_date kw =
     and_then (lift (bind0 ''ToolKit.get_current_time_and_date'' ''self'' kw)) (\<lambda>_.
     and_then self_api_keys (\<lambda>keys.
     external (method_body env ''get_current_time_and_date'' keys [])))"
| "call_method env M_ask_wolfram kw =
     and_then (lift (bind1 ''ToolKit.ask_wolfram'' ''self'' ''query'' None kw)) (\<lambda>query.
     and_then self_api_keys (\<lambda>keys.
     external (method_body env ''ask_wolfram'' keys [(''query'', query)])))"
| "call_method env M_get_tool_definitions kw =
     and_then (lift (bind0 ''ToolKit.get_tool_definitions'' ''cls'' kw)) (\<lambda>_.
     returns get_tool_definitions)"

text \<open>
  Arguments that are no mapping are refused before the call, in a message that names
  the callee: a function as \<^verbatim>\<open>module.qualname()\<close>, any other object as its \<^verbatim>\<open>str\<close>.
  The program runs as a script, so the module of class \<^verbatim>\<open>ToolKit\<close> is \<^verbatim>\<open>__main__\<close>.
\<close>

definition script_module :: string where
  "script_module = ''__main__''"

fun qualname :: "toolkit_method \<Rightarrow> string" where
  "qualname M_init = ''ToolKit.__init__''"
| "qualname M_get_weather = ''ToolKit.get_weather''"
| "qualname M_get_news = ''ToolKit.get_news''"
| "qualname M_get_system_metrics = ''ToolKit.get_system_metrics''"
| "qualname M_get_current_time_and_date = ''ToolKit.get_current_time_and_date''"
| "qualname M_ask_wolfram = ''ToolKit.ask_wolfram''"
| "qualname M_get_tool_definitions = ''ToolKit.get_tool_definitions''"

definition not_a_mapping :: "string \<Rightarrow> pyval \<Rightarrow> exn" where
  "not_a_mapping callee args =
     Exn ''TypeError'' (callee @ '' argument after ** must be a mapping, not '' @ type_name args)"

fun call_attribute :: "'x env \<Rightarrow> 'x attribute \<Rightarrow> pyval \<Rightarrow> (pyval, 'x state) action" where
  "call_attribute env (ForeignAttr f) args = external (call f args)"
| "call_attribute env (DataAttr v) args =
     (case args of
        PDict kw \<Rightarrow> raises (Exn ''TypeError'' (quoted (type_name v) @ '' object is not callable''))
      | _ \<Rightarrow> raises (not_a_mapping (py_str env v) args))"
| "call_attribute env (BoundMethod m) args =
     (case args of
        PDict kw \<Rightarrow> call_method env m kw
      | _ \<Rightarrow> raises (not_a_mapping (script_module @ ''.'' @ qualname m @ ''()'') args))"

section \<open>Chatbot\<close>

subsection \<open>\<^verbatim>\<open>Chatbot.__init__\<close>\<close>

definition system_prompt :: string where
  "system_prompt =
     newline @
     ''        You are a helpful assistant with access to various tools. You can:'' @ newline @
     ''        1. Check weather for any city'' @ newline @
     ''        2. Get latest news updates, optionally filtered by topic'' @ newline @
     ''        3. Check system performance metrics'' @ newline @
     ''        4. Get current date and time'' @ newline @
     ''        5. Query Wolfram Alpha for calculations and facts'' @ newline @
     ''        '' @ newline @
     ''        Use these tools when appropriate to provide accurate information.'' @ newline @
     ''        ''"

text \<open>\<^verbatim>\<open>os.getenv(name)\<close>, once \<^verbatim>\<open>load_dotenv\<close> has run, is the parameter \<open>getenv\<close>.\<close>

definition of_getenv :: "string option \<Rightarrow> pyval" where
  "of_getenv r = (case r of None \<Rightarrow> PNone | Some v \<Rightarrow> PStr v)"

definition collect_api_keys :: "(string \<Rightarrow> string option) \<Rightarrow> pyval" where
  "collect_api_keys getenv =
     PDict [
       (''OPENAI_API_KEY'', of_getenv (getenv ''OPENAI_API_KEY'')),
       (''WEATHER_API'', of_getenv (getenv ''WEATHER_API'')),
       (''NEWS_API_KEY'', of_getenv (getenv ''NEWS_API'')),
       (''WOLFRAM_API_KEY'', of_getenv (getenv ''WOLFRAMALPHA_API''))]"

text \<open>
  The constructor returns the new object's state, or the exception that ends it. The
  fields do not exist before their first assignment; the record that the constructor
  starts from holds \<^verbatim>\<open>None\<close> and \<open>[]\<close> there, which nothing reads.
\<close>

definition Chatbot_init :: "'x env \<Rightarrow> (string \<Rightarrow> string option) \<Rightarrow> 'x \<Rightarrow> exn + 'x state" where
  "Chatbot_init env getenv x =
     (let keys = collect_api_keys getenv in
      case
        (and_then (lift (getitem_str keys ''OPENAI_API_KEY'')) (\<lambda>key.
         if \<not> truthy key
         then raises (Exn ''ValueError'' ''OpenAI API key not found in environment variables'')
         else
           and_then (external (openai_Client env key)) (\<lambda>_.
           and_then (ToolKit_init env keys) (\<lambda>_.
           (\<lambda>s. (Inr (), s\<lparr>conversation_history := []\<rparr>))))))
        \<lparr>api_keys = PNone, conversation_history = [], outside = x\<rparr>
      of
        (Inl e, _) \<Rightarrow> Inl e
      | (Inr _, s) \<Rightarrow> Inr s)"

subsection \<open>\<^verbatim>\<open>Chatbot._format_messages\<close>\<close>

definition format_messages :: "string \<Rightarrow> (message list, 'x state) action" where
  "format_messages user_input =
     and_then self_conversation_history (\<lambda>history.
     returns ([Message ''system'' system_prompt] @ history @ [Message ''user'' user_input]))"

subsection \<open>\<^verbatim>\<open>Chatbot._execute_tool_call\<close>\<close>

text \<open>
  The decoding of the arguments and the lookup stand before the \<^verbatim>\<open>try\<close>; only the
  call stands inside it. The result is whatever the attribute returns.
\<close>

definition execute_tool_call :: "'x env \<Rightarrow> tool_call \<Rightarrow> (pyval, 'x state) action" where
  "execute_tool_call env tc =
     (let fname = function_name tc in
      and_then (lift (json_loads env (function_arguments tc))) (\<lambda>function_args.
      and_then (\<lambda>s. (Inr (getattr_toolkit env fname s), s)) (\<lambda>function.
      if \<not> attr_truthy function
      then returns (PStr (''Function '' @ fname @ '' not found. Please try again.''))
      else
        try_except (call_attribute env function function_args)
          (\<lambda>e. returns (PStr (''Error executing '' @ fname @ '': '' @ exn_str e))))))"

subsection \<open>\<^verbatim>\<open>Chatbot.process_message\<close>\<close>

text \<open>\<^verbatim>\<open>sep.join(items)\<close>: every item must be a \<^verbatim>\<open>str\<close>.\<close>

fun str_items :: "nat \<Rightarrow> pyval list \<Rightarrow> exn + string list" where
  "str_items i [] = Inr []"
| "str_items i (PStr s # vs) =
     (case str_items (Suc i) vs of
        Inl e \<Rightarrow> Inl e
      | Inr ss \<Rightarrow> Inr (s # ss))"
| "str_items i (v # vs) =
     Inl (Exn ''TypeError''
       (''sequence item '' @ decimal i @ '': expected str instance, '' @ type_name v @ '' found''))"

fun intercalate :: "string \<Rightarrow> string list \<Rightarrow> string" where
  "intercalate sep [] = []"
| "intercalate sep [s] = s"
| "intercalate sep (s # ss) = s @ sep @ intercalate sep ss"

definition str_join :: "string \<Rightarrow> pyval list \<Rightarrow> exn + string" where
  "str_join sep items =
     (case str_items 0 items of
        Inl e \<Rightarrow> Inl e
      | Inr ss \<Rightarrow> Inr (intercalate sep ss))"

text \<open>\<^verbatim>\<open>xs[-n:]\<close>: the last \<open>n\<close> items, all of them when there are fewer.\<close>

definition last_n :: "nat \<Rightarrow> 'a list \<Rightarrow> 'a list" where
  "last_n n xs = drop (length xs - n) xs"

definition append_history :: "message \<Rightarrow> (unit, 'x state) action" where
  "append_history m =
     (\<lambda>s. (Inr (), s\<lparr>conversation_history := conversation_history s @ [m]\<rparr>))"

definition trim_history :: "(unit, 'x state) action" where
  "trim_history =
     (\<lambda>s. (Inr (),
        if length (conversation_history s) > 20
        then s\<lparr>conversation_history := last_n 20 (conversation_history s)\<rparr>
        else s))"

text \<open>The \<^verbatim>\<open>for\<close> loop over the tool calls, \<open>responses\<close> being the list built so far.\<close>

fun for_tool_calls :: "'x env \<Rightarrow> tool_call list \<Rightarrow> pyval list \<Rightarrow> (pyval list, 'x state) action" where
  "for_tool_calls env [] responses = returns responses"
| "for_tool_calls env (tc # tcs) responses =
     and_then (execute_tool_call env tc) (\<lambda>result.
     for_tool_calls env tcs (responses @ [result]))"

definition api_request :: "message list \<Rightarrow> request" where
  "api_request msgs =
     \<lparr>model = ''gpt-4o'', messages = msgs, tool_choice = ''auto'',
      tools = get_tool_definitions, temperature = ''0.7''\<rparr>"

definition first_choice :: "completion \<Rightarrow> exn + chat_message" where
  "first_choice c =
     (case choices c of
        [] \<Rightarrow> Inl (Exn ''IndexError'' ''list index out of range'')
      | ch # _ \<Rightarrow> Inr ch)"

text \<open>
  The \<^verbatim>\<open>if tool_calls: ... else: ...\<close> of the body. \<^verbatim>\<open>if tool_calls\<close> holds for a list
  with at least one request; \<^verbatim>\<open>message.content or "No response generated."\<close> is the
  content unless that is \<^verbatim>\<open>None\<close> or empty.
\<close>

definition response_of :: "'x env \<Rightarrow> chat_message \<Rightarrow> (string, 'x state) action" where
  "response_of env message =
     (case message_tool_calls message of
        Some (tc # tcs) \<Rightarrow>
          and_then (for_tool_calls env (tc # tcs) []) (\<lambda>responses.
          lift (str_join newline responses))
      | _ \<Rightarrow>
          returns (case message_content message of
                     Some (c # cs) \<Rightarrow> c # cs
                   | _ \<Rightarrow> ''No response generated.''))"

text \<open>The body of the \<^verbatim>\<open>try\<close>.\<close>

definition process_message_try :: "'x env \<Rightarrow> string \<Rightarrow> (string, 'x state) action" where
  "process_message_try env user_input =
     and_then (format_messages user_input) (\<lambda>msgs.
     and_then (external (completions_create env (api_request msgs))) (\<lambda>completion.
     and_then (lift (first_choice completion)) (\<lambda>message.
     and_then (append_history (Message ''user'' user_input)) (\<lambda>_.
     and_then (response_of env message) (\<lambda>response.
     and_then (append_history (Message ''assistant'' response)) (\<lambda>_.
     and_then trim_history (\<lambda>_.
     returns response)))))))"

definition process_message :: "'x env \<Rightarrow> string \<Rightarrow> (string, 'x state) action" where
  "process_message env user_input =
     try_except (process_message_try env user_input)
       (\<lambda>e. returns (''Error processing message: '' @ exn_str e))"

text \<open>A conversation: one call of \<open>process_message\<close> per line read, as the loop of \<^verbatim>\<open>main\<close> makes them.\<close>

fun conversation :: "'x env \<Rightarrow> string list \<Rightarrow> 'x state \<Rightarrow> 'x state" where
  "conversation env [] s = s"
| "conversation env (u # us) s = conversation env us (snd (process_message env u s))"

section \<open>Sample surroundings\<close>

text \<open>
  Concrete surroundings for the examples below. The state outside the program is the
  number of completions requested so far, so that \<open>service\<close> scripts the completion
  service turn by turn; \<open>weather\<close> is what the weather provider answers.
  \<open>json_loads_sample\<close> tabulates \<^verbatim>\<open>json.loads\<close> on the three argument strings the
  examples use, and is not used on any other.
\<close>

definition json_loads_sample :: "string \<Rightarrow> exn + pyval" where
  \<open>json_loads_sample src =
     (if src = ''{}'' then Inr (PDict [])
      else if src = ''{"city": "London"}'' then Inr (PDict [(''city'', PStr ''London'')])
      else if src = ''{''
        then Inl (Exn ''JSONDecodeError''
               ''Expecting property name enclosed in double quotes: line 1 column 2 (char 1)'')
      else Inl (Exn ''JSONDecodeError'' ''Expecting value: line 1 column 1 (char 0)''))\<close>

definition sample_env :: "(nat \<Rightarrow> exn + completion) \<Rightarrow> (exn + response) \<Rightarrow> nat env" where
  "sample_env service weather =
     \<lparr>json_loads = json_loads_sample,
      str_other = (\<lambda>v. ''<'' @ type_name v @ ''>''),
      requests_get = (\<lambda>url params x. (weather, x)),
      py_print = (\<lambda>v x. (Inr (), x)),
      completions_create = (\<lambda>req x. (service x, Suc x)),
      wolfram_Client = (\<lambda>key x. (Inr (), x)),
      openai_Client = (\<lambda>key x. (Inr (), x)),
      method_body = (\<lambda>name keys args x. (Inr (PStr (name @ '' was called'')), x)),
      foreign_attr = (\<lambda>name keys x. None)\<rparr>"

definition sample_getenv :: "string \<Rightarrow> string option" where
  "sample_getenv name = (if name = ''OPENAI_API_KEY'' then Some ''sk-sample'' else None)"

definition sample_keys :: pyval where
  "sample_keys =
     PDict [(''OPENAI_API_KEY'', PStr ''sk-sample''), (''WEATHER_API'', PNone),
            (''NEWS_API_KEY'', PNone), (''WOLFRAM_API_KEY'', PNone)]"

definition fresh_chatbot :: "nat state" where
  "fresh_chatbot = \<lparr>api_keys = sample_keys, conversation_history = [], outside = 0\<rparr>"

definition text_reply :: "string option \<Rightarrow> exn + completion" where
  "text_reply c = Inr \<lparr>choices = [\<lparr>message_content = c, message_tool_calls = None\<rparr>]\<rparr>"

definition tool_request :: "string \<Rightarrow> string \<Rightarrow> exn + completion" where
  "tool_request name arguments =
     Inr \<lparr>choices = [\<lparr>message_content = None,
                       message_tool_calls =
                         Some [\<lparr>function_name = name, function_arguments = arguments\<rparr>]\<rparr>]\<rparr>"

definition always :: "'a \<Rightarrow> nat \<Rightarrow> 'a" where
  "always r n = r"

definition busy_chatbot :: "nat state" where
  "busy_chatbot =
     \<lparr>api_keys = sample_keys,
      conversation_history =
        Message ''user'' ''first'' # replicate 18 (Message ''assistant'' ''later''),
      outside = 0\<rparr>"



definition offline :: "exn + 'a" where
  "offline = Inl (Exn ''ConnectionError'' ''Connection refused'')"

definition london_weather :: pyval where
  "london_weather =
     PDict [(''weather'', PList [PDict [(''description'', PStr ''clear sky'')]]),
            (''main'', PDict [(''temp'', PInt 15)])]"

text \<open>A service that answers ten turns with text and then asks for a tool with broken arguments.\<close>

definition ten_then_malformed :: "nat \<Rightarrow> exn + completion" where
  "ten_then_malformed n =
     (if n < 10 then text_reply (Some ''ok'') else tool_request ''get_weather'' ''{'')"

text \<open>The chatbot after ten turns answered with \<^verbatim>\<open>ok\<close>.\<close>

definition full_chatbot :: "nat state" where
  "full_chatbot =
     \<lparr>api_keys = sample_keys,
      conversation_history =
        [Message ''user'' ''hi'', Message ''assistant'' ''ok'',
         Message ''user'' ''hi'', Message ''assistant'' ''ok'',
         Message ''user'' ''hi'', Message ''assistant'' ''ok'',
         Message ''user'' ''hi'', Message ''assistant'' ''ok'',
         Message ''user'' ''hi'', Message ''assistant'' ''ok'',
         Message ''user'' ''hi'', Message ''assistant'' ''ok'',
         Message ''user'' ''hi'', Message ''assistant'' ''ok'',
         Message ''user'' ''hi'', Message ''assistant'' ''ok'',
         Message ''user'' ''hi'', Message ''assistant'' ''ok'',
         Message ''user'' ''hi'', Message ''assistant'' ''ok''],
      outside = 10\<rparr>"

definition eleven_inputs :: "string list" where
  "eleven_inputs =
     [''hi'', ''hi'', ''hi'', ''hi'', ''hi'', ''hi'', ''hi'', ''hi'', ''hi'', ''hi'', ''weather?'']"

section \<open>Reading the tool catalog\<close>

text \<open>The entries of the catalog, and \<^verbatim>\<open>entry["function"].get(field)\<close> for one of them.\<close>

definition catalog_entries :: "pyval \<Rightarrow> pyval list" where
  "catalog_entries v = (case v of PList ts \<Rightarrow> ts | _ \<Rightarrow> [])"

definition entry_field :: "string \<Rightarrow> pyval \<Rightarrow> pyval option" where
  "entry_field field t =
     (case getitem_str t ''function'' of
        Inr (PDict f) \<Rightarrow> map_of f field
      | _ \<Rightarrow> None)"

section \<open>Actions that leave the history alone\<close>

definition keeps_history :: "('a, 'x state) action \<Rightarrow> bool" where
  "keeps_history m = (\<forall>s. conversation_history (snd (m s)) = conversation_history s)"

section \<open>Unfolding the action combinators\<close>

lemmas action_defs =
  returns_def raises_def lift_def and_then_def try_except_def external_def
  self_api_keys_def self_conversation_history_def

section \<open>The weather tool\<close>

lemma get_weather_returns: "\<exists>r s'. get_weather env city s = (Inr r, s')"
  by (simp add: get_weather_def try_except_def returns_def split: prod.splits sum.splits)

text \<open>Which values a subscript accepts.\<close>

lemma getitem_str_Inr:
  "getitem_str v k = Inr r \<longleftrightarrow> (\<exists>d. v = PDict d \<and> map_of d k = Some r)"
  by (cases v) (auto split: option.splits)

lemma getitem_int_0_Inr:
  "getitem_int v 0 = Inr r \<longleftrightarrow>
     (\<exists>xs. v = PList (r # xs)) \<or> (\<exists>c cs. v = PStr (c # cs) \<and> r = PStr [c])"
proof (cases v)
  case (PList xs)
  then show ?thesis by (cases xs) (auto simp add: seq_index_def)
next
  case (PStr cs)
  then show ?thesis by (cases cs) (auto simp add: seq_index_def)
qed auto

text \<open>
  The two fields are read exactly from a reply of the provider's shape: an object whose
  \<^verbatim>\<open>main\<close> is an object with a \<^verbatim>\<open>temp\<close>, and whose \<^verbatim>\<open>weather\<close> is a list that starts
  with an object with a \<^verbatim>\<open>description\<close>. Every other reply raises.
\<close>

lemma weather_fields_Inr:
  "weather_fields data = Inr (temp, desc) \<longleftrightarrow>
     (\<exists>d m w ws. data = PDict d \<and> map_of d ''main'' = Some (PDict m) \<and>
        map_of m ''temp'' = Some temp \<and>
        map_of d ''weather'' = Some (PList (PDict w # ws)) \<and>
        map_of w ''description'' = Some desc)"
proof -
  have "weather_fields data = Inr (temp, desc) \<longleftrightarrow>
      (\<exists>main weather weather0.
         getitem_str data ''main'' = Inr main \<and> getitem_str main ''temp'' = Inr temp \<and>
         getitem_str data ''weather'' = Inr weather \<and> getitem_int weather 0 = Inr weather0 \<and>
         getitem_str weather0 ''description'' = Inr desc)"
    by (auto simp add: weather_fields_def split: sum.splits)
  also have "\<dots> \<longleftrightarrow>
     (\<exists>d m w ws. data = PDict d \<and> map_of d ''main'' = Some (PDict m) \<and>
        map_of m ''temp'' = Some temp \<and>
        map_of d ''weather'' = Some (PList (PDict w # ws)) \<and>
        map_of w ''description'' = Some desc)"
    unfolding getitem_str_Inr getitem_int_0_Inr by auto
  finally show ?thesis .
qed

lemma weather_fields_no_main:
  assumes "map_of d ''main'' = None"
  shows "weather_fields (PDict d) = Inl (Exn ''KeyError'' (quoted ''main''))"
  using assms by (simp add: weather_fields_def)

lemma get_weather_after_print:
  fixes env :: "'x env" and s :: "'x state"
  assumes "py_get (api_keys s) ''WEATHER_API'' = Inr appid"
    and "requests_get env weather_url (weather_params city appid) (outside s) = (Inr resp, x1)"
    and "response_json resp = Inr data"
    and "py_print env data x1 = (Inr (), x2)"
  shows "get_weather env city s =
     (case weather_fields data of
        Inl e \<Rightarrow> (Inr (''Error fetching weather data: '' @ exn_str e), s\<lparr>outside := x2\<rparr>)
      | Inr (temp, desc) \<Rightarrow>
          (Inr (''Current weather in '' @ py_str env city @ '': '' @ py_str env temp
                 @ degree_sign @ ''C, '' @ py_str env desc), s\<lparr>outside := x2\<rparr>))"
  using assms
  by (simp add: get_weather_def get_weather_try_def action_defs weather_report_def
        weather_error_def split: sum.splits)

text \<open>
  C9, as the code has it. \<open>get_weather\<close> never raises: it always returns a string. When
  the reading of the key, the request to the provider, the decoding of its reply or the
  printing of the data fails with \<open>e\<close>, the string is \<^verbatim>\<open>Error fetching weather data: \<close>
  followed by \<open>str(e)\<close>; so it is when the reply has not the provider's shape, and for
  a reply without the key \<^verbatim>\<open>main\<close> the string ends in \<^verbatim>\<open>'main'\<close>. When the reply is
  an object whose \<^verbatim>\<open>main.temp\<close> is \<open>temp\<close> and whose \<^verbatim>\<open>weather[0].description\<close> is
  \<open>desc\<close>, the string is \<^verbatim>\<open>Current weather in <city>: <temp>\<degree>C, <desc>\<close>, with the
  city, this temperature and this description as \<^verbatim>\<open>str\<close> gives them. That string is
  one line provided none of the three has a line break in it.
\<close>

theorem get_weather_error_text_or_report:
  fixes env :: "'x env" and s :: "'x state"
  shows
  "(\<exists>r s'. get_weather env city s = (Inr r, s')) \<and>
   (py_get (api_keys s) ''WEATHER_API'' = Inl e0 \<longrightarrow>
      get_weather env city s = (Inr (''Error fetching weather data: '' @ exn_str e0), s)) \<and>
   (py_get (api_keys s) ''WEATHER_API'' = Inr appid \<and>
    requests_get env weather_url (weather_params city appid) (outside s) = (Inl e1, x1) \<longrightarrow>
      get_weather env city s =
        (Inr (''Error fetching weather data: '' @ exn_str e1), s\<lparr>outside := x1\<rparr>)) \<and>
   (py_get (api_keys s) ''WEATHER_API'' = Inr appid \<and>
    requests_get env weather_url (weather_params city appid) (outside s) = (Inr resp, x1) \<and>
    response_json resp = Inl e2 \<longrightarrow>
      get_weather env city s =
        (Inr (''Error fetching weather data: '' @ exn_str e2), s\<lparr>outside := x1\<rparr>)) \<and>
   (py_get (api_keys s) ''WEATHER_API'' = Inr appid \<and>
    requests_get env weather_url (weather_params city appid) (outside s) = (Inr resp, x1) \<and>
    response_json resp = Inr data \<and> py_print env data x1 = (Inl e3, x2) \<longrightarrow>
      get_weather env city s =
        (Inr (''Error fetching weather data: '' @ exn_str e3), s\<lparr>outside := x2\<rparr>)) \<and>
   (py_get (api_keys s) ''WEATHER_API'' = Inr appid \<and>
    requests_get env weather_url (weather_params city appid) (outside s) = (Inr resp, x1) \<and>
    response_json resp = Inr data \<and> py_print env data x1 = (Inr (), x2) \<and>
    \<not> (\<exists>d m w ws t ds. data = PDict d \<and> map_of d ''main'' = Some (PDict m) \<and>
          map_of m ''temp'' = Some t \<and>
          map_of d ''weather'' = Some (PList (PDict w # ws)) \<and>
          map_of w ''description'' = Some ds) \<longrightarrow>
      (\<exists>e. get_weather env city s =
         (Inr (''Error fetching weather data: '' @ exn_str e), s\<lparr>outside := x2\<rparr>))) \<and>
   (py_get (api_keys s) ''WEATHER_API'' = Inr appid \<and>
    requests_get env weather_url (weather_params city appid) (outside s) = (Inr resp, x1) \<and>
    response_json resp = Inr (PDict d0) \<and> py_print env (PDict d0) x1 = (Inr (), x2) \<and>
    map_of d0 ''main'' = None \<longrightarrow>
      get_weather env city s =
        (Inr (''Error fetching weather data: '' @ quoted ''main''), s\<lparr>outside := x2\<rparr>)) \<and>
   (py_get (api_keys s) ''WEATHER_API'' = Inr appid \<and>
    requests_get env weather_url (weather_params city appid) (outside s) = (Inr resp, x1) \<and>
    response_json resp = Inr (PDict d1) \<and> py_print env (PDict d1) x1 = (Inr (), x2) \<and>
    map_of d1 ''main'' = Some (PDict m1) \<and> map_of m1 ''temp'' = Some temp \<and>
    map_of d1 ''weather'' = Some (PList (PDict w1 # ws1)) \<and>
    map_of w1 ''description'' = Some desc \<longrightarrow>
      get_weather env city s =
        (Inr (''Current weather in '' @ py_str env city @ '': '' @ py_str env temp
               @ degree_sign @ ''C, '' @ py_str env desc), s\<lparr>outside := x2\<rparr>) \<and>
      (CHR 0x0A \<notin> set (py_str env city) \<and> CHR 0x0A \<notin> set (py_str env temp) \<and>
       CHR 0x0A \<notin> set (py_str env desc) \<longrightarrow>
         CHR 0x0A \<notin> set (''Current weather in '' @ py_str env city @ '': '' @ py_str env temp
               @ degree_sign @ ''C, '' @ py_str env desc)))"
proof (intro conjI)
  show "\<exists>r s'. get_weather env city s = (Inr r, s')"
    by (rule get_weather_returns)
next
  show "py_get (api_keys s) ''WEATHER_API'' = Inl e0 \<longrightarrow>
      get_weather env city s = (Inr (''Error fetching weather data: '' @ exn_str e0), s)"
    by (simp add: get_weather_def get_weather_try_def action_defs weather_error_def)
next
  show "py_get (api_keys s) ''WEATHER_API'' = Inr appid \<and>
    requests_get env weather_url (weather_params city appid) (outside s) = (Inl e1, x1) \<longrightarrow>
      get_weather env city s =
        (Inr (''Error fetching weather data: '' @ exn_str e1), s\<lparr>outside := x1\<rparr>)"
    by (simp add: get_weather_def get_weather_try_def action_defs weather_error_def)
next
  show "py_get (api_keys s) ''WEATHER_API'' = Inr appid \<and>
    requests_get env weather_url (weather_params city appid) (outside s) = (Inr resp, x1) \<and>
    response_json resp = Inl e2 \<longrightarrow>
      get_weather env city s =
        (Inr (''Error fetching weather data: '' @ exn_str e2), s\<lparr>outside := x1\<rparr>)"
    by (simp add: get_weather_def get_weather_try_def action_defs weather_error_def)
next
  show "py_get (api_keys s) ''WEATHER_API'' = Inr appid \<and>
    requests_get env weather_url (weather_params city appid) (outside s) = (Inr resp, x1) \<and>
    response_json resp = Inr data \<and> py_print env data x1 = (Inl e3, x2) \<longrightarrow>
      get_weather env city s =
        (Inr (''Error fetching weather data: '' @ exn_str e3), s\<lparr>outside := x2\<rparr>)"
    by (simp add: get_weather_def get_weather_try_def action_defs weather_error_def)
next
  show "py_get (api_keys s) ''WEATHER_API'' = Inr appid \<and>
    requests_get env weather_url (weather_params city appid) (outside s) = (Inr resp, x1) \<and>
    response_json resp = Inr data \<and> py_print env data x1 = (Inr (), x2) \<and>
    \<not> (\<exists>d m w ws t ds. data = PDict d \<and> map_of d ''main'' = Some (PDict m) \<and>
          map_of m ''temp'' = Some t \<and>
          map_of d ''weather'' = Some (PList (PDict w # ws)) \<and>
          map_of w ''description'' = Some ds) \<longrightarrow>
      (\<exists>e. get_weather env city s =
         (Inr (''Error fetching weather data: '' @ exn_str e), s\<lparr>outside := x2\<rparr>))"
  proof
    assume h: "py_get (api_keys s) ''WEATHER_API'' = Inr appid \<and>
      requests_get env weather_url (weather_params city appid) (outside s) = (Inr resp, x1) \<and>
      response_json resp = Inr data \<and> py_print env data x1 = (Inr (), x2) \<and>
      \<not> (\<exists>d m w ws t ds. data = PDict d \<and> map_of d ''main'' = Some (PDict m) \<and>
          map_of m ''temp'' = Some t \<and>
          map_of d ''weather'' = Some (PList (PDict w # ws)) \<and>
          map_of w ''description'' = Some ds)"
    then have "\<And>t ds. weather_fields data \<noteq> Inr (t, ds)"
      unfolding weather_fields_Inr by blast
    then obtain e where "weather_fields data = Inl e"
      by (cases "weather_fields data") auto
    with h get_weather_after_print [of s appid env city resp x1 data x2]
    have "get_weather env city s =
         (Inr (''Error fetching weather data: '' @ exn_str e), s\<lparr>outside := x2\<rparr>)"
      by simp
    then show "\<exists>e. get_weather env city s =
         (Inr (''Error fetching weather data: '' @ exn_str e), s\<lparr>outside := x2\<rparr>)"
      by blast
  qed
next
  show "py_get (api_keys s) ''WEATHER_API'' = Inr appid \<and>
    requests_get env weather_url (weather_params city appid) (outside s) = (Inr resp, x1) \<and>
    response_json resp = Inr (PDict d0) \<and> py_print env (PDict d0) x1 = (Inr (), x2) \<and>
    map_of d0 ''main'' = None \<longrightarrow>
      get_weather env city s =
        (Inr (''Error fetching weather data: '' @ quoted ''main''), s\<lparr>outside := x2\<rparr>)"
    using get_weather_after_print [of s appid env city resp x1 "PDict d0" x2]
    by (simp add: weather_fields_no_main)
next
  show "py_get (api_keys s) ''WEATHER_API'' = Inr appid \<and>
    requests_get env weather_url (weather_params city appid) (outside s) = (Inr resp, x1) \<and>
    response_json resp = Inr (PDict d1) \<and> py_print env (PDict d1) x1 = (Inr (), x2) \<and>
    map_of d1 ''main'' = Some (PDict m1) \<and> map_of m1 ''temp'' = Some temp \<and>
    map_of d1 ''weather'' = Some (PList (PDict w1 # ws1)) \<and>
    map_of w1 ''description'' = Some desc \<longrightarrow>
      get_weather env city s =
        (Inr (''Current weather in '' @ py_str env city @ '': '' @ py_str env temp
               @ degree_sign @ ''C, '' @ py_str env desc), s\<lparr>outside := x2\<rparr>) \<and>
      (CHR 0x0A \<notin> set (py_str env city) \<and> CHR 0x0A \<notin> set (py_str env temp) \<and>
       CHR 0x0A \<notin> set (py_str env desc) \<longrightarrow>
         CHR 0x0A \<notin> set (''Current weather in '' @ py_str env city @ '': '' @ py_str env temp
               @ degree_sign @ ''C, '' @ py_str env desc))"
  proof
    assume h: "py_get (api_keys s) ''WEATHER_API'' = Inr appid \<and>
      requests_get env weather_url (weather_params city appid) (outside s) = (Inr resp, x1) \<and>
      response_json resp = Inr (PDict d1) \<and> py_print env (PDict d1) x1 = (Inr (), x2) \<and>
      map_of d1 ''main'' = Some (PDict m1) \<and> map_of m1 ''temp'' = Some temp \<and>
      map_of d1 ''weather'' = Some (PList (PDict w1 # ws1)) \<and>
      map_of w1 ''description'' = Some desc"
    then have "weather_fields (PDict d1) = Inr (temp, desc)"
      unfolding weather_fields_Inr by blast
    with h get_weather_after_print [of s appid env city resp x1 "PDict d1" x2]
    show "get_weather env city s =
        (Inr (''Current weather in '' @ py_str env city @ '': '' @ py_str env temp
               @ degree_sign @ ''C, '' @ py_str env desc), s\<lparr>outside := x2\<rparr>) \<and>
      (CHR 0x0A \<notin> set (py_str env city) \<and> CHR 0x0A \<notin> set (py_str env temp) \<and>
       CHR 0x0A \<notin> set (py_str env desc) \<longrightarrow>
         CHR 0x0A \<notin> set (''Current weather in '' @ py_str env city @ '': '' @ py_str env temp
               @ degree_sign @ ''C, '' @ py_str env desc))"
      by (simp add: degree_sign_def)
  qed
qed

lemma decimal_15: "decimal 15 = ''15''"
  by code_simp

theorem get_weather_error_text_or_report_witness:
  "requests_get (sample_env (always offline) offline) weather_url
     (weather_params (PStr ''Nowhere'') PNone) (outside fresh_chatbot)
     = (Inl (Exn ''ConnectionError'' ''Connection refused''), 0) \<and>
   get_weather (sample_env (always offline) offline) (PStr ''Nowhere'') fresh_chatbot
     = (Inr ''Error fetching weather data: Connection refused'', fresh_chatbot) \<and>
   london_weather
     = PDict [(''weather'', PList [PDict [(''description'', PStr ''clear sky'')]]),
              (''main'', PDict [(''temp'', PInt 15)])] \<and>
   get_weather (sample_env (always offline) (Inr (Response (Inr london_weather))))
       (PStr ''London'') fresh_chatbot
     = (Inr (''Current weather in London: 15'' @ degree_sign @ ''C, clear sky''), fresh_chatbot) \<and>
   CHR 0x0A \<notin> set (''Current weather in London: 15'' @ degree_sign @ ''C, clear sky'') \<and>
   get_weather (sample_env (always offline)
       (Inr (Response (Inr (PDict [(''cod'', PInt 401), (''message'', PStr ''Invalid API key'')])))))
       (PStr ''London'') fresh_chatbot
     = (Inr (''Error fetching weather data: '' @ quoted ''main''), fresh_chatbot)"
proof -
  have keys: "py_get (api_keys fresh_chatbot) ''WEATHER_API'' = Inr PNone"
    by (simp add: fresh_chatbot_def sample_keys_def)
  have same: "fresh_chatbot\<lparr>outside := 0\<rparr> = fresh_chatbot"
    by (simp add: fresh_chatbot_def)
  have out: "outside fresh_chatbot = 0"
    by (simp add: fresh_chatbot_def)
  have down: "requests_get (sample_env (always offline) offline) weather_url
     (weather_params (PStr ''Nowhere'') PNone) (outside fresh_chatbot)
     = (Inl (Exn ''ConnectionError'' ''Connection refused''), 0)"
    by (simp add: sample_env_def offline_def out)
  from get_weather_error_text_or_report
         [where env = "sample_env (always offline) offline" and s = fresh_chatbot
            and city = "PStr ''Nowhere''" and appid = PNone
            and ?e1.0 = "Exn ''ConnectionError'' ''Connection refused''" and ?x1.0 = 0]
       keys down
  have a: "get_weather (sample_env (always offline) offline) (PStr ''Nowhere'') fresh_chatbot
     = (Inr ''Error fetching weather data: Connection refused'', fresh_chatbot)"
    by (simp add: same)
  let ?d1 = "[(''weather'', PList [PDict [(''description'', PStr ''clear sky'')]]),
              (''main'', PDict [(''temp'', PInt 15)])]"
  have london: "london_weather = PDict ?d1"
    by (simp add: london_weather_def)
  have up: "requests_get (sample_env (always offline) (Inr (Response (Inr london_weather))))
      weather_url (weather_params (PStr ''London'') PNone) (outside fresh_chatbot)
     = (Inr (Response (Inr london_weather)), 0)"
    by (simp add: sample_env_def out)
  have pr: "py_print (sample_env (always offline) (Inr (Response (Inr london_weather))))
      (PDict ?d1) 0 = (Inr (), 0)"
    by (simp add: sample_env_def)
  have shape: "map_of ?d1 ''main'' = Some (PDict [(''temp'', PInt 15)]) \<and>
      map_of [(''temp'', PInt 15)] ''temp'' = Some (PInt 15) \<and>
      map_of ?d1 ''weather'' = Some (PList (PDict [(''description'', PStr ''clear sky'')] # [])) \<and>
      map_of [(''description'', PStr ''clear sky'')] ''description'' = Some (PStr ''clear sky'')"
    by simp
  from get_weather_error_text_or_report
         [where env = "sample_env (always offline) (Inr (Response (Inr london_weather)))"
            and s = fresh_chatbot and city = "PStr ''London''" and appid = PNone
            and resp = "Response (Inr london_weather)" and ?d1.0 = ?d1
            and ?m1.0 = "[(''temp'', PInt 15)]"
            and ?w1.0 = "[(''description'', PStr ''clear sky'')]" and ?ws1.0 = "[]"
            and ?x1.0 = 0 and ?x2.0 = 0 and temp = "PInt 15" and desc = "PStr ''clear sky''"]
       keys up pr shape london
  have b: "get_weather (sample_env (always offline) (Inr (Response (Inr london_weather))))
       (PStr ''London'') fresh_chatbot
     = (Inr (''Current weather in London: 15'' @ degree_sign @ ''C, clear sky''), fresh_chatbot) \<and>
     CHR 0x0A \<notin> set (''Current weather in London: 15'' @ degree_sign @ ''C, clear sky'')"
    by (simp add: same py_str_def str_int_def decimal_15 degree_sign_def)
  let ?denied = "[(''cod'', PInt 401), (''message'', PStr ''Invalid API key'')]"
  have up': "requests_get (sample_env (always offline) (Inr (Response (Inr (PDict ?denied)))))
      weather_url (weather_params (PStr ''London'') PNone) (outside fresh_chatbot)
     = (Inr (Response (Inr (PDict ?denied))), 0)"
    by (simp add: sample_env_def out)
  have pr': "py_print (sample_env (always offline) (Inr (Response (Inr (PDict ?denied)))))
      (PDict ?denied) 0 = (Inr (), 0)"
    by (simp add: sample_env_def)
  have nomain: "map_of ?denied ''main'' = None"
    by simp
  from get_weather_error_text_or_report
         [where env = "sample_env (always offline) (Inr (Response (Inr (PDict ?denied))))"
            and s = fresh_chatbot and city = "PStr ''London''" and appid = PNone
            and resp = "Response (Inr (PDict ?denied))" and ?d0.0 = ?denied
            and ?x1.0 = 0 and ?x2.0 = 0]
       keys up' pr' nomain
  have c: "get_weather (sample_env (always offline) (Inr (Response (Inr (PDict ?denied)))))
       (PStr ''London'') fresh_chatbot
     = (Inr (''Error fetching weather data: '' @ quoted ''main''), fresh_chatbot)"
    by (simp add: same)
  from down a london b c show ?thesis by blast
qed

text \<open>
  C9 as stated fails for a city with a line break in its name: the provider answering
  as for London, the string returned has two lines.
\<close>

theorem two_line_city_counterexample:
  "get_weather (sample_env (always offline) (Inr (Response (Inr london_weather))))
       (PStr (''a'' @ newline @ ''b'')) fresh_chatbot
     = (Inr (''Current weather in a'' @ newline @ ''b: 15'' @ degree_sign @ ''C, clear sky''),
        fresh_chatbot) \<and>
   CHR 0x0A \<in> set (''Current weather in a'' @ newline @ ''b: 15'' @ degree_sign
                      @ ''C, clear sky'')"
  by (simp add: get_weather_def get_weather_try_def action_defs weather_report_def
        weather_fields_def seq_index_def london_weather_def sample_env_def fresh_chatbot_def
        sample_keys_def weather_params_def py_str_def str_int_def decimal_15 newline_def)

section \<open>What a tool call can change\<close>

text \<open>
  A dispatched call may assign \<^verbatim>\<open>api_keys\<close> (through \<^verbatim>\<open>__init__\<close>) and may change the
  surroundings, but the history stays as it is.
\<close>

lemma keeps_returns: "keeps_history (returns a)"
  by (simp add: keeps_history_def returns_def)

lemma keeps_raises: "keeps_history (raises e)"
  by (simp add: keeps_history_def raises_def)

lemma keeps_lift: "keeps_history (lift r)"
  by (simp add: keeps_history_def lift_def)

lemma keeps_external: "keeps_history (external m)"
  by (simp add: keeps_history_def external_def split: prod.splits)

lemma keeps_self_api_keys: "keeps_history self_api_keys"
  by (simp add: keeps_history_def self_api_keys_def)

lemma keeps_historyD:
  assumes "keeps_history m" and "m s = (r, s')"
  shows "conversation_history s' = conversation_history s"
  using assms unfolding keeps_history_def by (metis snd_conv)

lemma keeps_and_then:
  assumes "keeps_history m" and "\<And>a. keeps_history (f a)"
  shows "keeps_history (and_then m f)"
  unfolding keeps_history_def
proof
  fix s
  obtain r s1 where m: "m s = (r, s1)" by (cases "m s")
  have h1: "conversation_history s1 = conversation_history s"
    using assms(1) m by (rule keeps_historyD)
  show "conversation_history (snd (and_then m f s)) = conversation_history s"
  proof (cases r)
    case (Inl e)
    with m h1 show ?thesis by (simp add: and_then_def)
  next
    case (Inr a)
    obtain r2 s2 where f: "f a s1 = (r2, s2)" by (cases "f a s1")
    have "conversation_history s2 = conversation_history s1"
      using assms(2) f by (rule keeps_historyD)
    with m h1 Inr f show ?thesis by (simp add: and_then_def)
  qed
qed

lemma keeps_try_except:
  assumes "keeps_history m" and "\<And>e. keeps_history (h e)"
  shows "keeps_history (try_except m h)"
  unfolding keeps_history_def
proof
  fix s
  obtain r s1 where m: "m s = (r, s1)" by (cases "m s")
  have h1: "conversation_history s1 = conversation_history s"
    using assms(1) m by (rule keeps_historyD)
  show "conversation_history (snd (try_except m h s)) = conversation_history s"
  proof (cases r)
    case (Inr a)
    with m h1 show ?thesis by (simp add: try_except_def)
  next
    case (Inl e)
    obtain r2 s2 where f: "h e s1 = (r2, s2)" by (cases "h e s1")
    have "conversation_history s2 = conversation_history s1"
      using assms(2) f by (rule keeps_historyD)
    with m h1 Inl f show ?thesis by (simp add: try_except_def)
  qed
qed

lemmas keeps_intros =
  keeps_and_then keeps_try_except keeps_returns keeps_raises keeps_lift
  keeps_external keeps_self_api_keys

lemma keeps_set_api_keys: "keeps_history (\<lambda>s. (Inr (), s\<lparr>api_keys := keys\<rparr>))"
  by (simp add: keeps_history_def)

lemma keeps_ToolKit_init: "keeps_history (ToolKit_init env keys)"
  unfolding ToolKit_init_def by (intro keeps_intros keeps_set_api_keys)

lemma keeps_get_weather: "keeps_history (get_weather env city)"
  unfolding get_weather_def get_weather_try_def
  by (intro keeps_intros) (simp add: keeps_returns split: prod.splits)

lemma keeps_call_method: "keeps_history (call_method env m kw)"
  by (cases m) (simp_all add: keeps_intros keeps_ToolKit_init keeps_get_weather)

lemma keeps_call_attribute: "keeps_history (call_attribute env a args)"
  by (cases a; cases args) (simp_all add: keeps_intros keeps_call_method)

lemma keeps_getattr: "keeps_history (\<lambda>s. (Inr (getattr_toolkit env fname s), s))"
  by (simp add: keeps_history_def)

lemma keeps_execute_tool_call: "keeps_history (execute_tool_call env tc)"
  unfolding execute_tool_call_def Let_def
  by (intro keeps_intros keeps_getattr) (simp add: keeps_intros keeps_call_attribute)

lemma keeps_for_tool_calls: "keeps_history (for_tool_calls env tcs responses)"
  by (induction tcs arbitrary: responses) (simp_all add: keeps_intros keeps_execute_tool_call)

lemma keeps_response_of: "keeps_history (response_of env message)"
proof (cases "message_tool_calls message")
  case None
  then show ?thesis by (simp add: response_of_def keeps_returns)
next
  case (Some tcs)
  show ?thesis
  proof (cases tcs)
    case Nil
    with Some show ?thesis by (simp add: response_of_def keeps_returns)
  next
    case (Cons tc rest)
    have "keeps_history (and_then (for_tool_calls env (tc # rest) [])
            (\<lambda>responses. lift (str_join newline responses)))"
      by (intro keeps_intros keeps_for_tool_calls)
    with Some Cons show ?thesis by (simp add: response_of_def del: for_tool_calls.simps)
  qed
qed

section \<open>One turn, step by step\<close>

text \<open>
  When the service raises, or answers with no choice at all, the body ends before it
  has touched the history.
\<close>

lemma process_message_try_service_raises:
  assumes "completions_create env
             (api_request (Message ''system'' system_prompt # conversation_history s
                @ [Message ''user'' user_input])) (outside s) = (Inl e, x1)"
  shows "process_message_try env user_input s = (Inl e, s\<lparr>outside := x1\<rparr>)"
  using assms by (simp add: process_message_try_def format_messages_def action_defs)

lemma process_message_try_no_choice:
  assumes "completions_create env
             (api_request (Message ''system'' system_prompt # conversation_history s
                @ [Message ''user'' user_input])) (outside s) = (Inr completion, x1)"
    and "choices completion = []"
  shows "process_message_try env user_input s
           = (Inl (Exn ''IndexError'' ''list index out of range''), s\<lparr>outside := x1\<rparr>)"
  using assms
  by (simp add: process_message_try_def format_messages_def action_defs first_choice_def)

text \<open>
  With a reply in hand, the user message is appended and the response computed; if
  that raises, the turn ends there, the user message staying in the history untrimmed.
\<close>

lemma process_message_try_response:
  assumes "completions_create env
             (api_request (Message ''system'' system_prompt # conversation_history s
                @ [Message ''user'' user_input])) (outside s) = (Inr completion, x1)"
    and "choices completion = message # rest"
  shows "process_message_try env user_input s =
     (case response_of env message
             (s\<lparr>outside := x1,
                conversation_history := conversation_history s @ [Message ''user'' user_input]\<rparr>) of
        (Inl e, s2) \<Rightarrow> (Inl e, s2)
      | (Inr response, s2) \<Rightarrow>
          (Inr response,
           if length (conversation_history s2 @ [Message ''assistant'' response]) > 20
           then s2\<lparr>conversation_history :=
                     last_n 20 (conversation_history s2 @ [Message ''assistant'' response])\<rparr>
           else s2\<lparr>conversation_history :=
                     conversation_history s2 @ [Message ''assistant'' response]\<rparr>))"
proof -
  let ?s1 = "s\<lparr>outside := x1,
               conversation_history := conversation_history s @ [Message ''user'' user_input]\<rparr>"
  obtain r s2 where R: "response_of env message ?s1 = (r, s2)"
    by (cases "response_of env message ?s1")
  show ?thesis
    using assms R
    by (cases r)
       (simp_all add: process_message_try_def format_messages_def action_defs first_choice_def
          append_history_def trim_history_def)
qed


lemma process_message_try_returns:
  assumes "process_message_try env user_input s = (Inr reply, s')"
  shows "conversation_history s' =
           (if length (conversation_history s) > 18
            then last_n 20 (conversation_history s
                   @ [Message ''user'' user_input, Message ''assistant'' reply])
            else conversation_history s
                   @ [Message ''user'' user_input, Message ''assistant'' reply])"
proof -
  let ?R = "api_request (Message ''system'' system_prompt # conversation_history s
              @ [Message ''user'' user_input])"
  obtain r x1 where C: "completions_create env ?R (outside s) = (r, x1)"
    by (cases "completions_create env ?R (outside s)")
  show ?thesis
  proof (cases r)
    case (Inl e)
    with C assms process_message_try_service_raises [of env s user_input e x1]
    show ?thesis by simp
  next
    case (Inr completion)
    show ?thesis
    proof (cases "choices completion")
      case Nil
      with C Inr assms process_message_try_no_choice [of env s user_input completion x1]
      show ?thesis by simp
    next
      case (Cons message rest)
      let ?s1 = "s\<lparr>outside := x1,
                   conversation_history := conversation_history s @ [Message ''user'' user_input]\<rparr>"
      obtain r2 s2 where R: "response_of env message ?s1 = (r2, s2)"
        by (cases "response_of env message ?s1")
      have h2: "conversation_history s2 = conversation_history s @ [Message ''user'' user_input]"
        using keeps_historyD [OF keeps_response_of R] by simp
      from C Inr Cons have step: "process_message_try env user_input s =
         (case response_of env message ?s1 of
            (Inl e, s2) \<Rightarrow> (Inl e, s2)
          | (Inr response, s2) \<Rightarrow>
              (Inr response,
               if length (conversation_history s2 @ [Message ''assistant'' response]) > 20
               then s2\<lparr>conversation_history :=
                         last_n 20 (conversation_history s2 @ [Message ''assistant'' response])\<rparr>
               else s2\<lparr>conversation_history :=
                         conversation_history s2 @ [Message ''assistant'' response]\<rparr>))"
        by (simp add: process_message_try_response)
      show ?thesis
      proof (cases r2)
        case (Inl e)
        with step R assms show ?thesis by simp
      next
        case (Inr response)
        with step R assms have "reply = response" and
          "s' = (if length (conversation_history s2 @ [Message ''assistant'' response]) > 20
               then s2\<lparr>conversation_history :=
                         last_n 20 (conversation_history s2 @ [Message ''assistant'' response])\<rparr>
               else s2\<lparr>conversation_history :=
                         conversation_history s2 @ [Message ''assistant'' response]\<rparr>)"
          by simp_all
        with h2 show ?thesis by simp
      qed
    qed
  qed
qed

lemma process_message_of_try:
  "process_message env user_input s =
     (case process_message_try env user_input s of
        (Inl e, s') \<Rightarrow> (Inr (''Error processing message: '' @ exn_str e), s')
      | (Inr reply, s') \<Rightarrow> (Inr reply, s'))"
  by (simp add: process_message_def try_except_def returns_def split: prod.splits sum.splits)

lemma process_message_returns: "\<exists>reply s'. process_message env user_input s = (Inr reply, s')"
  by (simp add: process_message_of_try split: prod.splits sum.splits)

section \<open>The claims about a turn\<close>

text \<open>
  C3. When the call to the completion service raises \<open>e\<close>, \<open>process_message\<close> returns
  \<^verbatim>\<open>Error processing message: \<close> followed by \<open>str(e)\<close>, and the turn leaves the history
  (and the keys) exactly as they were: only the surroundings have moved.
\<close>

theorem process_message_service_failure:
  assumes "completions_create env
             (api_request (Message ''system'' system_prompt # conversation_history s
                @ [Message ''user'' user_input])) (outside s) = (Inl e, x1)"
  shows "process_message env user_input s
           = (Inr (''Error processing message: '' @ exn_str e), s\<lparr>outside := x1\<rparr>) \<and>
         conversation_history (snd (process_message env user_input s)) = conversation_history s \<and>
         api_keys (snd (process_message env user_input s)) = api_keys s"
  using process_message_try_service_raises [OF assms]
  by (simp add: process_message_of_try)

theorem process_message_service_failure_witness:
  "completions_create (sample_env (always offline) offline)
     (api_request (Message ''system'' system_prompt # conversation_history fresh_chatbot
        @ [Message ''user'' ''hi''])) (outside fresh_chatbot)
     = (Inl (Exn ''ConnectionError'' ''Connection refused''), 1) \<and>
   process_message (sample_env (always offline) offline) ''hi'' fresh_chatbot
     = (Inr ''Error processing message: Connection refused'', fresh_chatbot\<lparr>outside := 1\<rparr>) \<and>
   conversation_history
     (snd (process_message (sample_env (always offline) offline) ''hi'' fresh_chatbot)) = []"
proof -
  have down: "completions_create (sample_env (always offline) offline)
     (api_request (Message ''system'' system_prompt # conversation_history fresh_chatbot
        @ [Message ''user'' ''hi''])) (outside fresh_chatbot)
     = (Inl (Exn ''ConnectionError'' ''Connection refused''), 1)"
    by (simp add: sample_env_def always_def offline_def fresh_chatbot_def)
  from process_message_service_failure [OF down] down
  show ?thesis by (simp add: fresh_chatbot_def)
qed

text \<open>
  A turn whose body runs to its end leaves the old history followed by the user
  message and the assistant message, cut to its last 20 entries: when the two appends
  make it longer than 20, exactly 20 entries remain, the most recent ones, unchanged
  and in their order, and what is gone is an initial segment.
\<close>

lemma completed_turn_keeps_most_recent:
  assumes "process_message_try env user_input s = (Inr reply, s')"
    and "H = conversation_history s @ [Message ''user'' user_input, Message ''assistant'' reply]"
  shows "process_message env user_input s = (Inr reply, s') \<and>
         conversation_history s' = drop (length H - 20) H \<and>
         (20 < length H \<longrightarrow>
            length (conversation_history s') = 20 \<and>
            (\<forall>i<20. conversation_history s' ! i = H ! (length H - 20 + i)) \<and>
            take (length H - 20) H @ conversation_history s' = H) \<and>
         (length H \<le> 20 \<longrightarrow> conversation_history s' = H)"
proof -
  have eq: "conversation_history s' = drop (length H - 20) H"
    using process_message_try_returns [OF assms(1)] assms(2)
    by (simp add: last_n_def)
  have "process_message env user_input s = (Inr reply, s')"
    using assms(1) by (simp add: process_message_of_try)
  with eq show ?thesis by simp
qed

lemma busy_turn:
  "process_message_try (sample_env (always (text_reply (Some ''Hello''))) offline) ''hi''
     busy_chatbot
   = (Inr ''Hello'',
      busy_chatbot\<lparr>outside := 1,
        conversation_history :=
          replicate 18 (Message ''assistant'' ''later'')
            @ [Message ''user'' ''hi'', Message ''assistant'' ''Hello'']\<rparr>)"
  by (simp add: process_message_try_def format_messages_def action_defs sample_env_def
        always_def text_reply_def first_choice_def response_of_def append_history_def
        trim_history_def last_n_def busy_chatbot_def)

lemma process_message_text_turn:
  assumes "completions_create env
             (api_request (Message ''system'' system_prompt # conversation_history s
                @ [Message ''user'' user_input])) (outside s) = (Inr completion, x1)"
    and "choices completion = message # rest"
    and "message_tool_calls message = None \<or> message_tool_calls message = Some []"
  shows "process_message env user_input s =
      (Inr (case message_content message of Some (c # cs) \<Rightarrow> c # cs
            | _ \<Rightarrow> ''No response generated.''),
       s\<lparr>outside := x1, conversation_history :=
             drop (length (conversation_history s) - 18)
               (conversation_history s
                  @ [Message ''user'' user_input,
                     Message ''assistant''
                       (case message_content message of Some (c # cs) \<Rightarrow> c # cs
                        | _ \<Rightarrow> ''No response generated.'')])\<rparr>)"
proof -
  let ?reply = "case message_content message of Some (c # cs) \<Rightarrow> c # cs
                | _ \<Rightarrow> ''No response generated.''"
  let ?s1 = "s\<lparr>outside := x1,
               conversation_history := conversation_history s @ [Message ''user'' user_input]\<rparr>"
  have resp: "response_of env message ?s1 = (Inr ?reply, ?s1)"
    using assms(3) by (auto simp add: response_of_def returns_def)
  show ?thesis
    by (simp add: process_message_of_try process_message_try_response [OF assms(1,2)]
          resp last_n_def)
qed

text \<open>
  C7, as the code has it. When the first choice of the reply carries no tool call
  (\<^verbatim>\<open>None\<close> or an empty list), the reply is the content if that is a non-empty
  string, and the literal \<^verbatim>\<open>No response generated.\<close> if the content is \<^verbatim>\<open>None\<close> or
  empty. The turn appends the user message and then the assistant message holding that
  reply, and trims; a history of at most 18 entries grows by exactly these two.
\<close>

theorem text_turn_reply_and_history:
  assumes "completions_create env
             (api_request (Message ''system'' system_prompt # conversation_history s
                @ [Message ''user'' user_input])) (outside s) = (Inr completion, x1)"
    and "choices completion = message # rest"
    and "message_tool_calls message = None \<or> message_tool_calls message = Some []"
  shows
    "(message_content message = Some c \<and> c \<noteq> [] \<longrightarrow>
        process_message env user_input s =
          (Inr c, s\<lparr>outside := x1, conversation_history :=
             drop (length (conversation_history s) - 18)
               (conversation_history s @ [Message ''user'' user_input, Message ''assistant'' c])\<rparr>)) \<and>
     (message_content message = None \<or> message_content message = Some [] \<longrightarrow>
        process_message env user_input s =
          (Inr ''No response generated.'', s\<lparr>outside := x1, conversation_history :=
             drop (length (conversation_history s) - 18)
               (conversation_history s
                  @ [Message ''user'' user_input,
                     Message ''assistant'' ''No response generated.''])\<rparr>)) \<and>
     (length (conversation_history s) \<le> 18 \<longrightarrow>
        (\<exists>reply. conversation_history (snd (process_message env user_input s)) =
           conversation_history s
             @ [Message ''user'' user_input, Message ''assistant'' reply]))"
proof -
  let ?reply = "case message_content message of Some (c # cs) \<Rightarrow> c # cs
                | _ \<Rightarrow> ''No response generated.''"
  have run: "process_message env user_input s =
      (Inr ?reply, s\<lparr>outside := x1, conversation_history :=
             drop (length (conversation_history s) - 18)
               (conversation_history s
                  @ [Message ''user'' user_input, Message ''assistant'' ?reply])\<rparr>)"
    by (rule process_message_text_turn [OF assms])
  have a: "message_content message = Some c \<and> c \<noteq> [] \<longrightarrow> ?reply = c"
    by (cases c) auto
  have b: "message_content message = None \<or> message_content message = Some [] \<longrightarrow>
             ?reply = ''No response generated.''"
    by auto
  from run a b show ?thesis
    by (auto simp del: drop_append)
qed

theorem text_turn_reply_and_history_witness:
  "completions_create (sample_env (always (text_reply (Some ''Hello''))) offline)
     (api_request (Message ''system'' system_prompt # conversation_history fresh_chatbot
        @ [Message ''user'' ''hi''])) (outside fresh_chatbot)
     = (Inr \<lparr>choices = [\<lparr>message_content = Some ''Hello'', message_tool_calls = None\<rparr>]\<rparr>, 1) \<and>
   process_message (sample_env (always (text_reply (Some ''Hello''))) offline) ''hi''
     fresh_chatbot
   = (Inr ''Hello'',
      fresh_chatbot\<lparr>outside := 1,
        conversation_history := [Message ''user'' ''hi'', Message ''assistant'' ''Hello'']\<rparr>)"
proof -
  have up: "completions_create (sample_env (always (text_reply (Some ''Hello''))) offline)
     (api_request (Message ''system'' system_prompt # conversation_history fresh_chatbot
        @ [Message ''user'' ''hi''])) (outside fresh_chatbot)
     = (Inr \<lparr>choices = [\<lparr>message_content = Some ''Hello'', message_tool_calls = None\<rparr>]\<rparr>, 1)"
    by (simp add: sample_env_def always_def text_reply_def fresh_chatbot_def)
  from text_turn_reply_and_history
         [OF up, where message = "\<lparr>message_content = Some ''Hello'', message_tool_calls = None\<rparr>"
            and rest = "[]" and c = "''Hello''"]
  have "process_message (sample_env (always (text_reply (Some ''Hello''))) offline) ''hi''
     fresh_chatbot
   = (Inr ''Hello'',
      fresh_chatbot\<lparr>outside := 1,
        conversation_history := [Message ''user'' ''hi'', Message ''assistant'' ''Hello'']\<rparr>)"
    by (simp add: fresh_chatbot_def)
  with up show ?thesis by simp
qed

text \<open>
  C7 as stated fails where the content is present but empty: the reply is then the
  literal, not the content.
\<close>

theorem empty_content_counterexample:
  "fst (process_message (sample_env (always (text_reply (Some ''''))) offline) ''hi''
          fresh_chatbot)
     = Inr ''No response generated.'' \<and>
   fst (process_message (sample_env (always (text_reply (Some ''''))) offline) ''hi''
          fresh_chatbot)
     \<noteq> Inr ''''"
  by (simp add: process_message_def process_message_try_def format_messages_def action_defs
        sample_env_def always_def text_reply_def first_choice_def response_of_def
        append_history_def trim_history_def fresh_chatbot_def)


section \<open>What the completion service is asked\<close>













section \<open>The tool catalog\<close>

text \<open>
  C8, as the code has it. \<open>get_tool_definitions\<close> is a fixed list of five entries of type
  \<^verbatim>\<open>function\<close>, named for the weather, news, system metrics, current time and
  Wolfram Alpha tools, in this order, each with a description. The weather, news and
  Wolfram Alpha entries carry a parameter schema (an object with one string property;
  required for the weather and Wolfram Alpha tools, not for news); the system metrics
  and current time entries carry none. Calling it takes no argument, reads no state
  and changes none: in every state the call returns this same list.
\<close>

theorem tool_catalog_five_entries:
  "length (catalog_entries get_tool_definitions) = 5 \<and>
   map (\<lambda>t. getitem_str t ''type'') (catalog_entries get_tool_definitions)
     = [Inr (PStr ''function''), Inr (PStr ''function''), Inr (PStr ''function''),
        Inr (PStr ''function''), Inr (PStr ''function'')] \<and>
   map (entry_field ''name'') (catalog_entries get_tool_definitions)
     = [Some (PStr ''get_weather''), Some (PStr ''get_news''),
        Some (PStr ''get_system_metrics''), Some (PStr ''get_current_time_and_date''),
        Some (PStr ''ask_wolfram'')] \<and>
   map (entry_field ''description'') (catalog_entries get_tool_definitions)
     = [Some (PStr ''Get current weather information for a location''),
        Some (PStr ''Get latest news headlines, optionally filtered by topic''),
        Some (PStr ''Get current system performance metrics''),
        Some (PStr ''Get the current time and date''),
        Some (PStr ''Query Wolfram Alpha for factual information'')] \<and>
   map (entry_field ''parameters'') (catalog_entries get_tool_definitions)
     = [Some (PDict [(''type'', PStr ''object''),
                     (''properties'', PDict [(''city'',
                        PDict [(''type'', PStr ''string''),
                               (''description'', PStr ''The city name, e.g. London'')])]),
                     (''required'', PList [PStr ''city''])]),
        Some (PDict [(''type'', PStr ''object''),
                     (''properties'', PDict [(''topic'',
                        PDict [(''type'', PStr ''string''),
                               (''description'', PStr ''Optional topic to filter news'')])])]),
        None,
        None,
        Some (PDict [(''type'', PStr ''object''),
                     (''properties'', PDict [(''query'',
                        PDict [(''type'', PStr ''string''),
                               (''description'', PStr ''The query to send to Wolfram Alpha'')])]),
                     (''required'', PList [PStr ''query''])])] \<and>
   call_method env M_get_tool_definitions [] s = (Inr get_tool_definitions, s)"
  by (simp add: get_tool_definitions_def catalog_entries_def entry_field_def
        string_property_def bind0_def unexpected_kw_def action_defs)

text \<open>
  C8 as stated fails at the third entry: the system metrics tool is advertised with a
  name and a description only.
\<close>

theorem system_metrics_entry_counterexample:
  "entry_field ''name'' (catalog_entries get_tool_definitions ! 2)
     = Some (PStr ''get_system_metrics'') \<and>
   entry_field ''parameters'' (catalog_entries get_tool_definitions ! 2) = None"
  by (simp add: get_tool_definitions_def catalog_entries_def entry_field_def)


section \<open>Dispatching a tool call\<close>

lemma execute_tool_call_undecodable:
  assumes "json_loads env (function_arguments tc) = Inl e"
  shows "execute_tool_call env tc s = (Inl e, s)"
  using assms by (simp add: execute_tool_call_def Let_def action_defs)

lemma execute_tool_call_falsy:
  assumes "json_loads env (function_arguments tc) = Inr args"
    and "\<not> attr_truthy (getattr_toolkit env (function_name tc) s)"
  shows "execute_tool_call env tc s =
           (Inr (PStr (''Function '' @ function_name tc @ '' not found. Please try again.'')), s)"
  using assms by (simp add: execute_tool_call_def Let_def action_defs)

lemma execute_tool_call_truthy:
  assumes "json_loads env (function_arguments tc) = Inr args"
    and "attr_truthy (getattr_toolkit env (function_name tc) s)"
  shows "execute_tool_call env tc s =
           (case call_attribute env (getattr_toolkit env (function_name tc) s) args s of
              (Inl e, s') \<Rightarrow>
                (Inr (PStr (''Error executing '' @ function_name tc @ '': '' @ exn_str e)), s')
            | (Inr v, s') \<Rightarrow> (Inr v, s'))"
  using assms
  by (simp add: execute_tool_call_def Let_def action_defs split: prod.splits sum.splits)

text \<open>Once the arguments have decoded, the dispatch returns: nothing it does raises.\<close>

lemma execute_tool_call_decoded_returns:
  assumes "json_loads env (function_arguments tc) = Inr args"
  shows "\<exists>v s'. execute_tool_call env tc s = (Inr v, s')"
proof (cases "attr_truthy (getattr_toolkit env (function_name tc) s)")
  case False
  with assms show ?thesis by (simp add: execute_tool_call_falsy)
next
  case True
  with assms show ?thesis
    by (simp add: execute_tool_call_truthy split: prod.splits sum.splits)
qed

lemma attr_truthy_getattr:
  "attr_truthy (getattr_toolkit env name s) \<longleftrightarrow>
     (if name = ''api_keys'' then truthy (api_keys s)
      else map_of method_table name \<noteq> None \<or>
           (\<exists>f. foreign_attr env name (api_keys s) (outside s) = Some f \<and> is_true f))"
  by (auto simp add: getattr_toolkit_def split: option.splits)

text \<open>
  A turn whose first tool call has arguments that do not decode: the exception leaves
  \<open>_execute_tool_call\<close>, ends the loop and the body, and is reported by the handler of
  \<open>process_message\<close>. The user message is in the history by then; the assistant message
  and the trim are skipped.
\<close>

lemma process_message_undecodable:
  assumes "completions_create env
             (api_request (Message ''system'' system_prompt # conversation_history s
                @ [Message ''user'' user_input])) (outside s) = (Inr completion, x1)"
    and "choices completion = message # rest"
    and "message_tool_calls message = Some (tc # tcs)"
    and "json_loads env (function_arguments tc) = Inl e"
  shows "process_message env user_input s =
           (Inr (''Error processing message: '' @ exn_str e),
            s\<lparr>outside := x1,
              conversation_history := conversation_history s @ [Message ''user'' user_input]\<rparr>)"
proof -
  let ?s1 = "s\<lparr>outside := x1,
               conversation_history := conversation_history s @ [Message ''user'' user_input]\<rparr>"
  have "for_tool_calls env (tc # tcs) [] ?s1 = (Inl e, ?s1)"
    using assms(4) by (simp add: and_then_def execute_tool_call_undecodable)
  then have "response_of env message ?s1 = (Inl e, ?s1)"
    using assms(3) by (simp add: response_of_def and_then_def del: for_tool_calls.simps)
  then show ?thesis
    by (simp add: process_message_of_try process_message_try_response [OF assms(1,2)])
qed

text \<open>A turn with one tool call whose name finds nothing.\<close>

lemma process_message_one_call:
  assumes "completions_create env
             (api_request (Message ''system'' system_prompt # conversation_history s
                @ [Message ''user'' user_input])) (outside s) = (Inr completion, x1)"
    and "choices completion = message # rest"
    and "message_tool_calls message = Some [tc]"
    and "execute_tool_call env tc
           (s\<lparr>outside := x1,
              conversation_history := conversation_history s @ [Message ''user'' user_input]\<rparr>)
         = (Inr (PStr reply),
            s\<lparr>outside := x1,
              conversation_history := conversation_history s @ [Message ''user'' user_input]\<rparr>)"
  shows "process_message env user_input s =
           (Inr reply,
            s\<lparr>outside := x1,
              conversation_history :=
                drop (length (conversation_history s) - 18)
                  (conversation_history s
                     @ [Message ''user'' user_input, Message ''assistant'' reply])\<rparr>)"
proof -
  let ?s1 = "s\<lparr>outside := x1,
               conversation_history := conversation_history s @ [Message ''user'' user_input]\<rparr>"
  have "for_tool_calls env [tc] [] ?s1 = (Inr [PStr reply], ?s1)"
    using assms(4) by (simp add: and_then_def returns_def)
  then have "response_of env message ?s1 = (Inr reply, ?s1)"
    using assms(3)
    by (simp add: response_of_def and_then_def lift_def str_join_def del: for_tool_calls.simps)
  then show ?thesis
    by (simp add: process_message_of_try process_message_try_response [OF assms(1,2)] last_n_def)
qed


section \<open>The claims about the dispatch\<close>

text \<open>
  C10, as the code has it. Once the arguments have decoded, so that control reaches the
  lookup, the \<^verbatim>\<open>not found\<close> branch is taken exactly when \<^verbatim>\<open>getattr\<close> gives nothing true: otherwise
  the attribute is called, its result returned as it is, and an exception it raises
  turned into the \<^verbatim>\<open>Error executing\<close> text. What counts is any true attribute of the
  object: the field \<^verbatim>\<open>api_keys\<close> while it is true, each method the class defines
  (the five advertised tools, \<^verbatim>\<open>get_tool_definitions\<close> and \<^verbatim>\<open>__init__\<close>), and each
  true attribute the runtime supplies. So \<^verbatim>\<open>get_tool_definitions\<close> is found and called
  (with no arguments it returns the catalog), and \<^verbatim>\<open>api_keys\<close>, a non-empty dict, is
  found and called, which fails as \<^verbatim>\<open>'dict' object is not callable\<close>.
\<close>

theorem dispatch_accepts_any_true_attribute:
  assumes "json_loads env (function_arguments tc) = Inr args"
  shows
    "(\<not> attr_truthy (getattr_toolkit env (function_name tc) s) \<longrightarrow>
        execute_tool_call env tc s =
          (Inr (PStr (''Function '' @ function_name tc @ '' not found. Please try again.'')), s)) \<and>
     (attr_truthy (getattr_toolkit env (function_name tc) s) \<and>
      call_attribute env (getattr_toolkit env (function_name tc) s) args s = (Inr v, s1) \<longrightarrow>
        execute_tool_call env tc s = (Inr v, s1)) \<and>
     (attr_truthy (getattr_toolkit env (function_name tc) s) \<and>
      call_attribute env (getattr_toolkit env (function_name tc) s) args s = (Inl e, s2) \<longrightarrow>
        execute_tool_call env tc s =
          (Inr (PStr (''Error executing '' @ function_name tc @ '': '' @ exn_str e)), s2)) \<and>
     (attr_truthy (getattr_toolkit env (function_name tc) s) \<longleftrightarrow>
        (if function_name tc = ''api_keys'' then truthy (api_keys s)
         else function_name tc \<in> {''__init__'', ''get_weather'', ''get_news'',
                ''get_system_metrics'', ''get_current_time_and_date'', ''ask_wolfram'',
                ''get_tool_definitions''} \<or>
              (\<exists>f. foreign_attr env (function_name tc) (api_keys s) (outside s) = Some f
                     \<and> is_true f))) \<and>
     (function_name tc = ''get_tool_definitions'' \<and> args = PDict [] \<longrightarrow>
        execute_tool_call env tc s = (Inr get_tool_definitions, s)) \<and>
     (function_name tc = ''api_keys'' \<and> api_keys s = PDict (k # ks) \<and> args = PDict kw \<longrightarrow>
        execute_tool_call env tc s =
          (Inr (PStr (''Error executing api_keys: '' @ quoted ''dict''
                        @ '' object is not callable'')), s))"
proof (intro conjI impI)
  assume "\<not> attr_truthy (getattr_toolkit env (function_name tc) s)"
  with assms show "execute_tool_call env tc s =
      (Inr (PStr (''Function '' @ function_name tc @ '' not found. Please try again.'')), s)"
    by (rule execute_tool_call_falsy)
next
  assume "attr_truthy (getattr_toolkit env (function_name tc) s) \<and>
      call_attribute env (getattr_toolkit env (function_name tc) s) args s = (Inr v, s1)"
  with assms show "execute_tool_call env tc s = (Inr v, s1)"
    by (simp add: execute_tool_call_truthy)
next
  assume "attr_truthy (getattr_toolkit env (function_name tc) s) \<and>
      call_attribute env (getattr_toolkit env (function_name tc) s) args s = (Inl e, s2)"
  with assms show "execute_tool_call env tc s =
      (Inr (PStr (''Error executing '' @ function_name tc @ '': '' @ exn_str e)), s2)"
    by (simp add: execute_tool_call_truthy)
next
  have names: "map_of method_table (function_name tc) \<noteq> None \<longleftrightarrow>
      function_name tc \<in> {''__init__'', ''get_weather'', ''get_news'',
                ''get_system_metrics'', ''get_current_time_and_date'', ''ask_wolfram'',
                ''get_tool_definitions''}"
    by (simp add: method_table_def)
  show "attr_truthy (getattr_toolkit env (function_name tc) s) \<longleftrightarrow>
        (if function_name tc = ''api_keys'' then truthy (api_keys s)
         else function_name tc \<in> {''__init__'', ''get_weather'', ''get_news'',
                ''get_system_metrics'', ''get_current_time_and_date'', ''ask_wolfram'',
                ''get_tool_definitions''} \<or>
              (\<exists>f. foreign_attr env (function_name tc) (api_keys s) (outside s) = Some f
                     \<and> is_true f))"
    unfolding attr_truthy_getattr names ..
next
  assume a: "function_name tc = ''get_tool_definitions'' \<and> args = PDict []"
  then have g: "getattr_toolkit env (function_name tc) s = BoundMethod M_get_tool_definitions"
    by (simp add: getattr_toolkit_def method_table_def)
  have "call_attribute env (BoundMethod M_get_tool_definitions) (PDict []) s
          = (Inr get_tool_definitions, s)"
    by (simp add: bind0_def unexpected_kw_def action_defs)
  with assms a g show "execute_tool_call env tc s = (Inr get_tool_definitions, s)"
    by (simp add: execute_tool_call_truthy)
next
  assume a: "function_name tc = ''api_keys'' \<and> api_keys s = PDict (k # ks) \<and> args = PDict kw"
  then have g: "getattr_toolkit env (function_name tc) s = DataAttr (PDict (k # ks))"
    by (simp add: getattr_toolkit_def)
  have "call_attribute env (DataAttr (PDict (k # ks))) (PDict kw) s
          = (Inl (Exn ''TypeError'' (quoted ''dict'' @ '' object is not callable'')), s)"
    by (simp add: raises_def)
  with assms a g show "execute_tool_call env tc s =
          (Inr (PStr (''Error executing api_keys: '' @ quoted ''dict''
                        @ '' object is not callable'')), s)"
    by (simp add: execute_tool_call_truthy)
qed

theorem dispatch_accepts_any_true_attribute_witness:
  "json_loads (sample_env (always offline) offline) ''{}'' = Inr (PDict []) \<and>
   execute_tool_call (sample_env (always offline) offline)
       \<lparr>function_name = ''api_keys'', function_arguments = ''{}''\<rparr> fresh_chatbot
     = (Inr (PStr (''Error executing api_keys: '' @ quoted ''dict''
                     @ '' object is not callable'')), fresh_chatbot) \<and>
   execute_tool_call (sample_env (always offline) offline)
       \<lparr>function_name = ''get_tool_definitions'', function_arguments = ''{}''\<rparr> fresh_chatbot
     = (Inr get_tool_definitions, fresh_chatbot) \<and>
   \<not> attr_truthy (getattr_toolkit (sample_env (always offline) offline)
                    ''delete_all_files'' fresh_chatbot) \<and>
   execute_tool_call (sample_env (always offline) offline)
       \<lparr>function_name = ''delete_all_files'', function_arguments = ''{}''\<rparr> fresh_chatbot
     = (Inr (PStr ''Function delete_all_files not found. Please try again.''), fresh_chatbot)"
proof -
  let ?E = "sample_env (always offline) offline"
  have dec: "json_loads ?E ''{}'' = Inr (PDict [])"
    by (simp add: sample_env_def json_loads_sample_def)
  have keys: "api_keys fresh_chatbot
      = PDict ((''OPENAI_API_KEY'', PStr ''sk-sample'')
               # [(''WEATHER_API'', PNone), (''NEWS_API_KEY'', PNone),
                  (''WOLFRAM_API_KEY'', PNone)])"
    by (simp add: fresh_chatbot_def sample_keys_def)
  have absent: "\<not> attr_truthy (getattr_toolkit ?E ''delete_all_files'' fresh_chatbot)"
    by (simp add: getattr_toolkit_def method_table_def sample_env_def)
  from dispatch_accepts_any_true_attribute
         [where env = ?E and tc = "\<lparr>function_name = ''api_keys'', function_arguments = ''{}''\<rparr>"
            and args = "PDict []" and s = fresh_chatbot and kw = "[]"
            and k = "(''OPENAI_API_KEY'', PStr ''sk-sample'')"
            and ks = "[(''WEATHER_API'', PNone), (''NEWS_API_KEY'', PNone),
                       (''WOLFRAM_API_KEY'', PNone)]"]
       dec keys
  have a: "execute_tool_call ?E
       \<lparr>function_name = ''api_keys'', function_arguments = ''{}''\<rparr> fresh_chatbot
     = (Inr (PStr (''Error executing api_keys: '' @ quoted ''dict''
                     @ '' object is not callable'')), fresh_chatbot)"
    by simp
  from dispatch_accepts_any_true_attribute
         [where env = ?E
            and tc = "\<lparr>function_name = ''get_tool_definitions'', function_arguments = ''{}''\<rparr>"
            and args = "PDict []" and s = fresh_chatbot]
       dec
  have b: "execute_tool_call ?E
       \<lparr>function_name = ''get_tool_definitions'', function_arguments = ''{}''\<rparr> fresh_chatbot
     = (Inr get_tool_definitions, fresh_chatbot)"
    by simp
  from dispatch_accepts_any_true_attribute
         [where env = ?E
            and tc = "\<lparr>function_name = ''delete_all_files'', function_arguments = ''{}''\<rparr>"
            and args = "PDict []" and s = fresh_chatbot]
       dec absent
  have c: "execute_tool_call ?E
       \<lparr>function_name = ''delete_all_files'', function_arguments = ''{}''\<rparr> fresh_chatbot
     = (Inr (PStr ''Function delete_all_files not found. Please try again.''), fresh_chatbot)"
    by simp
  from dec a b absent c show ?thesis by blast
qed

text \<open>
  C10 as stated fails for a request whose arguments do not decode: the name is no
  attribute of the object, and yet the \<^verbatim>\<open>not found\<close> branch is not taken, the call
  raising before the lookup.
\<close>

theorem undecodable_request_skips_lookup_counterexample:
  "\<not> attr_truthy (getattr_toolkit (sample_env (always offline) offline)
          ''no_such_tool'' fresh_chatbot) \<and>
   execute_tool_call (sample_env (always offline) offline)
       \<lparr>function_name = ''no_such_tool'', function_arguments = ''{''\<rparr> fresh_chatbot
     = (Inl (Exn ''JSONDecodeError''
          ''Expecting property name enclosed in double quotes: line 1 column 2 (char 1)''),
        fresh_chatbot)"
proof
  show "\<not> attr_truthy (getattr_toolkit (sample_env (always offline) offline)
          ''no_such_tool'' fresh_chatbot)"
    by (simp add: getattr_toolkit_def method_table_def sample_env_def)
next
  have "json_loads (sample_env (always offline) offline)
          (function_arguments \<lparr>function_name = ''no_such_tool'', function_arguments = ''{''\<rparr>)
        = Inl (Exn ''JSONDecodeError''
            ''Expecting property name enclosed in double quotes: line 1 column 2 (char 1)'')"
    by (simp add: sample_env_def json_loads_sample_def)
  then show "execute_tool_call (sample_env (always offline) offline)
       \<lparr>function_name = ''no_such_tool'', function_arguments = ''{''\<rparr> fresh_chatbot
     = (Inl (Exn ''JSONDecodeError''
          ''Expecting property name enclosed in double quotes: line 1 column 2 (char 1)''),
        fresh_chatbot)"
    by (rule execute_tool_call_undecodable)
qed


text \<open>
  C4, as the code has it. For a tool call whose arguments decode and whose name is no
  true attribute of the \<^verbatim>\<open>ToolKit\<close> object, the result of the call is exactly
  \<^verbatim>\<open>Function <name> not found. Please try again.\<close> and nothing changes; a turn whose
  reply asks for this one call returns that text and records it as the assistant
  message. And whatever the request, \<open>process_message\<close> returns a string: no exception
  leaves it.
\<close>

theorem unknown_function_not_found:
  assumes "json_loads env (function_arguments tc) = Inr args"
  shows
    "(\<not> attr_truthy (getattr_toolkit env (function_name tc) s) \<longrightarrow>
        execute_tool_call env tc s =
          (Inr (PStr (''Function '' @ function_name tc @ '' not found. Please try again.'')), s)) \<and>
     (completions_create env
        (api_request (Message ''system'' system_prompt # conversation_history s
           @ [Message ''user'' user_input])) (outside s) = (Inr completion, x1) \<and>
      choices completion = message # rest \<and> message_tool_calls message = Some [tc] \<and>
      \<not> attr_truthy (getattr_toolkit env (function_name tc) (s\<lparr>outside := x1\<rparr>)) \<longrightarrow>
        process_message env user_input s =
          (Inr (''Function '' @ function_name tc @ '' not found. Please try again.''),
           s\<lparr>outside := x1,
             conversation_history :=
               drop (length (conversation_history s) - 18)
                 (conversation_history s
                    @ [Message ''user'' user_input,
                       Message ''assistant''
                         (''Function '' @ function_name tc
                            @ '' not found. Please try again.'')])\<rparr>)) \<and>
     (\<exists>reply s'. process_message env user_input s = (Inr reply, s'))"
proof (intro conjI impI)
  assume "\<not> attr_truthy (getattr_toolkit env (function_name tc) s)"
  with assms show "execute_tool_call env tc s =
      (Inr (PStr (''Function '' @ function_name tc @ '' not found. Please try again.'')), s)"
    by (rule execute_tool_call_falsy)
next
  let ?s1 = "s\<lparr>outside := x1,
               conversation_history := conversation_history s @ [Message ''user'' user_input]\<rparr>"
  assume h: "completions_create env
        (api_request (Message ''system'' system_prompt # conversation_history s
           @ [Message ''user'' user_input])) (outside s) = (Inr completion, x1) \<and>
      choices completion = message # rest \<and> message_tool_calls message = Some [tc] \<and>
      \<not> attr_truthy (getattr_toolkit env (function_name tc) (s\<lparr>outside := x1\<rparr>))"
  have "getattr_toolkit env (function_name tc) ?s1
          = getattr_toolkit env (function_name tc) (s\<lparr>outside := x1\<rparr>)"
    by (simp add: getattr_toolkit_def cong: option.case_cong)
  with h have "\<not> attr_truthy (getattr_toolkit env (function_name tc) ?s1)"
    by simp
  with assms have "execute_tool_call env tc ?s1 =
      (Inr (PStr (''Function '' @ function_name tc @ '' not found. Please try again.'')), ?s1)"
    by (rule execute_tool_call_falsy)
  with h show "process_message env user_input s =
          (Inr (''Function '' @ function_name tc @ '' not found. Please try again.''),
           s\<lparr>outside := x1,
             conversation_history :=
               drop (length (conversation_history s) - 18)
                 (conversation_history s
                    @ [Message ''user'' user_input,
                       Message ''assistant''
                         (''Function '' @ function_name tc
                            @ '' not found. Please try again.'')])\<rparr>)"
    by (simp add: process_message_one_call)
next
  show "\<exists>reply s'. process_message env user_input s = (Inr reply, s')"
    by (rule process_message_returns)
qed

theorem unknown_function_not_found_witness:
  "json_loads (sample_env (always (tool_request ''delete_all_files'' ''{}'')) offline) ''{}''
     = Inr (PDict []) \<and>
   \<not> attr_truthy (getattr_toolkit
        (sample_env (always (tool_request ''delete_all_files'' ''{}'')) offline)
        ''delete_all_files'' (fresh_chatbot\<lparr>outside := 1\<rparr>)) \<and>
   process_message (sample_env (always (tool_request ''delete_all_files'' ''{}'')) offline)
       ''clean up'' fresh_chatbot
     = (Inr ''Function delete_all_files not found. Please try again.'',
        fresh_chatbot\<lparr>outside := 1,
          conversation_history :=
            [Message ''user'' ''clean up'',
             Message ''assistant'' ''Function delete_all_files not found. Please try again.'']\<rparr>)"
proof -
  let ?E = "sample_env (always (tool_request ''delete_all_files'' ''{}'')) offline"
  let ?tc = "\<lparr>function_name = ''delete_all_files'', function_arguments = ''{}''\<rparr>"
  let ?m = "\<lparr>message_content = None, message_tool_calls = Some [?tc]\<rparr>"
  have dec: "json_loads ?E (function_arguments ?tc) = Inr (PDict [])"
    by (simp add: sample_env_def json_loads_sample_def)
  have absent: "\<not> attr_truthy (getattr_toolkit ?E (function_name ?tc)
                    (fresh_chatbot\<lparr>outside := 1\<rparr>))"
    by (simp add: getattr_toolkit_def method_table_def sample_env_def)
  have svc: "completions_create ?E
        (api_request (Message ''system'' system_prompt # conversation_history fresh_chatbot
           @ [Message ''user'' ''clean up''])) (outside fresh_chatbot)
       = (Inr \<lparr>choices = [?m]\<rparr>, 1)"
    by (simp add: sample_env_def always_def tool_request_def fresh_chatbot_def)
  from unknown_function_not_found
         [OF dec, where s = fresh_chatbot and user_input = "''clean up''"
            and completion = "\<lparr>choices = [?m]\<rparr>" and ?x1.0 = 1 and message = ?m
            and rest = "[]"]
       svc absent
  have "process_message ?E ''clean up'' fresh_chatbot
     = (Inr ''Function delete_all_files not found. Please try again.'',
        fresh_chatbot\<lparr>outside := 1,
          conversation_history :=
            [Message ''user'' ''clean up'',
             Message ''assistant'' ''Function delete_all_files not found. Please try again.'']\<rparr>)"
    by (simp add: fresh_chatbot_def)
  with dec absent show ?thesis by simp
qed

text \<open>
  C4 as stated fails at two requests. \<^verbatim>\<open>api_keys\<close> is no tool of the catalog, yet it
  is an attribute of the object: the request is answered \<^verbatim>\<open>Error executing api_keys\<close>,
  not \<^verbatim>\<open>not found\<close>. And for a request whose arguments do not decode the name is
  never looked up: the reply is the report of the decoding error.
\<close>

theorem unknown_function_malformed_arguments_counterexample:
  "Some (PStr ''api_keys'')
     \<notin> set (map (entry_field ''name'') (catalog_entries get_tool_definitions)) \<and>
   process_message (sample_env (always (tool_request ''api_keys'' ''{}'')) offline)
       ''keys?'' fresh_chatbot
     = (Inr (''Error executing api_keys: '' @ quoted ''dict'' @ '' object is not callable''),
        fresh_chatbot\<lparr>outside := 1,
          conversation_history :=
            [Message ''user'' ''keys?'',
             Message ''assistant''
               (''Error executing api_keys: '' @ quoted ''dict''
                  @ '' object is not callable'')]\<rparr>) \<and>
   execute_tool_call (sample_env (always (tool_request ''delete_all_files'' ''{'')) offline)
       \<lparr>function_name = ''delete_all_files'', function_arguments = ''{''\<rparr> fresh_chatbot
     = (Inl (Exn ''JSONDecodeError''
          ''Expecting property name enclosed in double quotes: line 1 column 2 (char 1)''),
        fresh_chatbot) \<and>
   fst (process_message (sample_env (always (tool_request ''delete_all_files'' ''{'')) offline)
          ''clean up'' fresh_chatbot)
     = Inr (''Error processing message: ''
            @ ''Expecting property name enclosed in double quotes: line 1 column 2 (char 1)'')"
proof (intro conjI)
  show "Some (PStr ''api_keys'')
     \<notin> set (map (entry_field ''name'') (catalog_entries get_tool_definitions))"
    by (simp add: get_tool_definitions_def catalog_entries_def entry_field_def)
next
  let ?E = "sample_env (always (tool_request ''api_keys'' ''{}'')) offline"
  let ?tc = "\<lparr>function_name = ''api_keys'', function_arguments = ''{}''\<rparr>"
  let ?m = "\<lparr>message_content = None, message_tool_calls = Some [?tc]\<rparr>"
  let ?s1 = "fresh_chatbot\<lparr>outside := 1,
               conversation_history :=
                 conversation_history fresh_chatbot @ [Message ''user'' ''keys?'']\<rparr>"
  have dec: "json_loads ?E (function_arguments ?tc) = Inr (PDict [])"
    by (simp add: sample_env_def json_loads_sample_def)
  have svc: "completions_create ?E
        (api_request (Message ''system'' system_prompt # conversation_history fresh_chatbot
           @ [Message ''user'' ''keys?''])) (outside fresh_chatbot)
       = (Inr \<lparr>choices = [?m]\<rparr>, 1)"
    by (simp add: sample_env_def always_def tool_request_def fresh_chatbot_def)
  have m: "choices \<lparr>choices = [?m]\<rparr> = ?m # []" "message_tool_calls ?m = Some [?tc]"
    by simp_all
  have found: "attr_truthy (getattr_toolkit ?E (function_name ?tc) ?s1)"
    by (simp add: getattr_toolkit_def fresh_chatbot_def sample_keys_def)
  have "call_attribute ?E (getattr_toolkit ?E (function_name ?tc) ?s1) (PDict []) ?s1
          = (Inl (Exn ''TypeError'' (quoted ''dict'' @ '' object is not callable'')), ?s1)"
    by (simp add: getattr_toolkit_def fresh_chatbot_def sample_keys_def raises_def)
  with execute_tool_call_truthy [OF dec found]
  have "execute_tool_call ?E ?tc ?s1
          = (Inr (PStr (''Error executing api_keys: '' @ quoted ''dict''
                          @ '' object is not callable'')), ?s1)"
    by simp
  from process_message_one_call [OF svc m this]
  show "process_message ?E ''keys?'' fresh_chatbot
     = (Inr (''Error executing api_keys: '' @ quoted ''dict'' @ '' object is not callable''),
        fresh_chatbot\<lparr>outside := 1,
          conversation_history :=
            [Message ''user'' ''keys?'',
             Message ''assistant''
               (''Error executing api_keys: '' @ quoted ''dict''
                  @ '' object is not callable'')]\<rparr>)"
    by (simp add: fresh_chatbot_def)
next
  let ?E = "sample_env (always (tool_request ''delete_all_files'' ''{'')) offline"
  let ?tc = "\<lparr>function_name = ''delete_all_files'', function_arguments = ''{''\<rparr>"
  have dec: "json_loads ?E (function_arguments ?tc) = Inl (Exn ''JSONDecodeError''
          ''Expecting property name enclosed in double quotes: line 1 column 2 (char 1)'')"
    by (simp add: sample_env_def json_loads_sample_def)
  from execute_tool_call_undecodable [OF dec, of fresh_chatbot]
  show "execute_tool_call ?E ?tc fresh_chatbot
     = (Inl (Exn ''JSONDecodeError''
          ''Expecting property name enclosed in double quotes: line 1 column 2 (char 1)''),
        fresh_chatbot)"
    by simp
next
  let ?E = "sample_env (always (tool_request ''delete_all_files'' ''{'')) offline"
  let ?tc = "\<lparr>function_name = ''delete_all_files'', function_arguments = ''{''\<rparr>"
  let ?m = "\<lparr>message_content = None, message_tool_calls = Some [?tc]\<rparr>"
  have dec: "json_loads ?E (function_arguments ?tc) = Inl (Exn ''JSONDecodeError''
          ''Expecting property name enclosed in double quotes: line 1 column 2 (char 1)'')"
    by (simp add: sample_env_def json_loads_sample_def)
  have svc: "completions_create ?E
        (api_request (Message ''system'' system_prompt # conversation_history fresh_chatbot
           @ [Message ''user'' ''clean up''])) (outside fresh_chatbot)
       = (Inr \<lparr>choices = [?m]\<rparr>, 1)"
    by (simp add: sample_env_def always_def tool_request_def fresh_chatbot_def)
  have m: "choices \<lparr>choices = [?m]\<rparr> = ?m # []" "message_tool_calls ?m = Some (?tc # [])"
    by simp_all
  from process_message_undecodable [OF svc m dec]
  show "fst (process_message ?E ''clean up'' fresh_chatbot)
     = Inr (''Error processing message: ''
            @ ''Expecting property name enclosed in double quotes: line 1 column 2 (char 1)'')"
    by simp
qed

text \<open>
  C2, at a request whose arguments do not decode. \<^verbatim>\<open>json.loads\<close> stands before the
  \<^verbatim>\<open>try\<close> of \<open>_execute_tool_call\<close>, so its exception leaves the dispatch instead of
  becoming \<^verbatim>\<open>Error executing get_weather: ...\<close>; the handler of \<open>process_message\<close>
  reports it, and the turn ends with the user message appended and no assistant message.
\<close>

theorem decoding_failure_leaves_the_dispatch:
  "execute_tool_call (sample_env (always (tool_request ''get_weather'' ''{'')) offline)
       \<lparr>function_name = ''get_weather'', function_arguments = ''{''\<rparr> fresh_chatbot
     = (Inl (Exn ''JSONDecodeError''
          ''Expecting property name enclosed in double quotes: line 1 column 2 (char 1)''),
        fresh_chatbot) \<and>
   process_message (sample_env (always (tool_request ''get_weather'' ''{'')) offline)
       ''weather?'' fresh_chatbot
     = (Inr (''Error processing message: ''
             @ ''Expecting property name enclosed in double quotes: line 1 column 2 (char 1)''),
        fresh_chatbot\<lparr>outside := 1,
          conversation_history := [Message ''user'' ''weather?'']\<rparr>)"
proof -
  let ?E = "sample_env (always (tool_request ''get_weather'' ''{'')) offline"
  let ?tc = "\<lparr>function_name = ''get_weather'', function_arguments = ''{''\<rparr>"
  let ?m = "\<lparr>message_content = None, message_tool_calls = Some [?tc]\<rparr>"
  have dec: "json_loads ?E (function_arguments ?tc) = Inl (Exn ''JSONDecodeError''
          ''Expecting property name enclosed in double quotes: line 1 column 2 (char 1)'')"
    by (simp add: sample_env_def json_loads_sample_def)
  have svc: "completions_create ?E
        (api_request (Message ''system'' system_prompt # conversation_history fresh_chatbot
           @ [Message ''user'' ''weather?''])) (outside fresh_chatbot)
       = (Inr \<lparr>choices = [?m]\<rparr>, 1)"
    by (simp add: sample_env_def always_def tool_request_def fresh_chatbot_def)
  have m: "choices \<lparr>choices = [?m]\<rparr> = ?m # []" "message_tool_calls ?m = Some (?tc # [])"
    by simp_all
  from execute_tool_call_undecodable [OF dec, of fresh_chatbot]
       process_message_undecodable [OF svc m dec]
  show ?thesis by (simp add: fresh_chatbot_def)
qed

text \<open>
  The result of a call is whatever the attribute returns. \<^verbatim>\<open>get_tool_definitions\<close>
  returns a list, which \<^verbatim>\<open>"\n".join\<close> refuses: the turn ends in the handler of
  \<open>process_message\<close>, again with the user message appended and nothing after it.
\<close>

lemma list_result_ends_the_turn:
  "process_message (sample_env (always (tool_request ''get_tool_definitions'' ''{}'')) offline)
       ''tools?'' fresh_chatbot
     = (Inr ''Error processing message: sequence item 0: expected str instance, list found'',
        fresh_chatbot\<lparr>outside := 1,
          conversation_history := [Message ''user'' ''tools?'']\<rparr>)"
proof -
  let ?E = "sample_env (always (tool_request ''get_tool_definitions'' ''{}'')) offline"
  let ?tc = "\<lparr>function_name = ''get_tool_definitions'', function_arguments = ''{}''\<rparr>"
  let ?m = "\<lparr>message_content = None, message_tool_calls = Some [?tc]\<rparr>"
  let ?s1 = "fresh_chatbot\<lparr>outside := 1,
               conversation_history :=
                 conversation_history fresh_chatbot @ [Message ''user'' ''tools?'']\<rparr>"
  have svc: "completions_create ?E
        (api_request (Message ''system'' system_prompt # conversation_history fresh_chatbot
           @ [Message ''user'' ''tools?''])) (outside fresh_chatbot)
       = (Inr \<lparr>choices = [?m]\<rparr>, 1)"
    by (simp add: sample_env_def always_def tool_request_def fresh_chatbot_def)
  have m: "choices \<lparr>choices = [?m]\<rparr> = ?m # []"
    by simp
  have dec: "json_loads ?E (function_arguments ?tc) = Inr (PDict [])"
    by (simp add: sample_env_def json_loads_sample_def)
  have found: "attr_truthy (getattr_toolkit ?E (function_name ?tc) ?s1)"
    by (simp add: getattr_toolkit_def method_table_def)
  have "call_attribute ?E (getattr_toolkit ?E (function_name ?tc) ?s1) (PDict []) ?s1
          = (Inr get_tool_definitions, ?s1)"
    by (simp add: getattr_toolkit_def method_table_def bind0_def unexpected_kw_def action_defs)
  with execute_tool_call_truthy [OF dec found]
  have "execute_tool_call ?E ?tc ?s1 = (Inr get_tool_definitions, ?s1)"
    by simp
  then have "for_tool_calls ?E [?tc] [] ?s1 = (Inr [get_tool_definitions], ?s1)"
    by (simp add: and_then_def returns_def)
  moreover have "str_join newline [get_tool_definitions]
      = Inl (Exn ''TypeError'' ''sequence item 0: expected str instance, list found'')"
    by (simp add: str_join_def get_tool_definitions_def decimal.simps [of 0] digit_def)
  ultimately have "response_of ?E ?m ?s1
      = (Inl (Exn ''TypeError'' ''sequence item 0: expected str instance, list found''), ?s1)"
    by (simp add: response_of_def and_then_def lift_def del: for_tool_calls.simps)
  then have "process_message_try ?E ''tools?'' fresh_chatbot
      = (Inl (Exn ''TypeError'' ''sequence item 0: expected str instance, list found''), ?s1)"
    by (simp add: process_message_try_response [OF svc m])
  then show ?thesis
    by (simp add: process_message_of_try fresh_chatbot_def)
qed


section \<open>The length of the history\<close>

text \<open>A turn whose body runs to its end leaves at most 20 entries.\<close>

lemma completed_turn_within_bound:
  assumes "process_message_try env user_input s = (Inr reply, s')"
  shows "length (conversation_history s') \<le> 20"
  using process_message_try_returns [OF assms] by (simp add: last_n_def)

lemma ok_turn:
  assumes "n < 10"
  shows "process_message (sample_env ten_then_malformed offline) u
           \<lparr>api_keys = k, conversation_history = h, outside = n\<rparr>
         = (Inr ''ok'',
            \<lparr>api_keys = k,
             conversation_history =
               drop (length h - 18) (h @ [Message ''user'' u, Message ''assistant'' ''ok'']),
             outside = Suc n\<rparr>)"
proof -
  let ?E = "sample_env ten_then_malformed offline"
  let ?s = "\<lparr>api_keys = k, conversation_history = h, outside = n\<rparr>"
  let ?m = "\<lparr>message_content = Some ''ok'', message_tool_calls = None\<rparr>"
  have svc: "completions_create ?E
        (api_request (Message ''system'' system_prompt # conversation_history ?s
           @ [Message ''user'' u])) (outside ?s) = (Inr \<lparr>choices = [?m]\<rparr>, Suc n)"
    using assms by (simp add: sample_env_def ten_then_malformed_def text_reply_def)
  have m: "choices \<lparr>choices = [?m]\<rparr> = ?m # []" 
    "message_tool_calls ?m = None \<or> message_tool_calls ?m = Some []"
    by simp_all
  from process_message_text_turn [OF svc m] show ?thesis by simp
qed

lemma malformed_turn:
  assumes "\<not> n < 10"
  shows "process_message (sample_env ten_then_malformed offline) u
           \<lparr>api_keys = k, conversation_history = h, outside = n\<rparr>
         = (Inr (''Error processing message: ''
                 @ ''Expecting property name enclosed in double quotes: line 1 column 2 (char 1)''),
            \<lparr>api_keys = k, conversation_history = h @ [Message ''user'' u], outside = Suc n\<rparr>)"
proof -
  let ?E = "sample_env ten_then_malformed offline"
  let ?s = "\<lparr>api_keys = k, conversation_history = h, outside = n\<rparr>"
  let ?tc = "\<lparr>function_name = ''get_weather'', function_arguments = ''{''\<rparr>"
  let ?m = "\<lparr>message_content = None, message_tool_calls = Some [?tc]\<rparr>"
  have dec: "json_loads ?E (function_arguments ?tc) = Inl (Exn ''JSONDecodeError''
          ''Expecting property name enclosed in double quotes: line 1 column 2 (char 1)'')"
    by (simp add: sample_env_def json_loads_sample_def)
  have svc: "completions_create ?E
        (api_request (Message ''system'' system_prompt # conversation_history ?s
           @ [Message ''user'' u])) (outside ?s) = (Inr \<lparr>choices = [?m]\<rparr>, Suc n)"
    using assms by (simp add: sample_env_def ten_then_malformed_def tool_request_def)
  have m: "choices \<lparr>choices = [?m]\<rparr> = ?m # []" "message_tool_calls ?m = Some (?tc # [])"
    by simp_all
  from process_message_undecodable [OF svc m dec] show ?thesis by simp
qed

text \<open>
  C1, at a conversation of eleven turns with a fresh chatbot. Ten turns are answered
  with text and fill the history with 20 entries. In the eleventh the service asks for
  \<^verbatim>\<open>get_weather\<close> with the arguments \<^verbatim>\<open>{\<close>: the user message has been appended when
  \<^verbatim>\<open>json.loads\<close> raises, the trim is skipped, and the call returns with 21 entries.
\<close>

theorem history_exceeds_twenty:
  "Chatbot_init (sample_env ten_then_malformed offline) sample_getenv 0 = Inr fresh_chatbot \<and>
   length (conversation_history
     (conversation (sample_env ten_then_malformed offline) (take 10 eleven_inputs)
        fresh_chatbot)) = 20 \<and>
   length (conversation_history
     (conversation (sample_env ten_then_malformed offline) eleven_inputs fresh_chatbot)) = 21"
proof (intro conjI)
  show "Chatbot_init (sample_env ten_then_malformed offline) sample_getenv 0 = Inr fresh_chatbot"
    by (simp add: Chatbot_init_def collect_api_keys_def sample_getenv_def of_getenv_def
          ToolKit_init_def action_defs sample_env_def fresh_chatbot_def sample_keys_def)
next
  show "length (conversation_history
     (conversation (sample_env ten_then_malformed offline) (take 10 eleven_inputs)
        fresh_chatbot)) = 20"
    by (simp add: eleven_inputs_def fresh_chatbot_def ok_turn)
next
  show "length (conversation_history
     (conversation (sample_env ten_then_malformed offline) eleven_inputs fresh_chatbot)) = 21"
    by (simp add: eleven_inputs_def fresh_chatbot_def ok_turn malformed_turn)
qed

text \<open>
  C5, at the eleventh turn of that conversation. The ten answered turns leave a history
  of 20 entries. Appending the user message of the eleventh turn makes it 21 long, and
  then \<^verbatim>\<open>json.loads\<close> raises: the call returns with all 21 entries, the oldest still
  the first of them, where trimming would have kept the last 20.
\<close>

theorem failed_turn_retains_all_entries:
  "conversation (sample_env ten_then_malformed offline) (take 10 eleven_inputs) fresh_chatbot
     = full_chatbot \<and>
   length (conversation_history full_chatbot @ [Message ''user'' ''weather?'']) = 21 \<and>
   process_message (sample_env ten_then_malformed offline) ''weather?'' full_chatbot
     = (Inr (''Error processing message: ''
             @ ''Expecting property name enclosed in double quotes: line 1 column 2 (char 1)''),
        full_chatbot\<lparr>outside := 11,
          conversation_history :=
            conversation_history full_chatbot @ [Message ''user'' ''weather?'']\<rparr>) \<and>
   hd (conversation_history
         (snd (process_message (sample_env ten_then_malformed offline) ''weather?''
                 full_chatbot)))
     = Message ''user'' ''hi'' \<and>
   conversation_history
     (snd (process_message (sample_env ten_then_malformed offline) ''weather?'' full_chatbot))
     \<noteq> drop 1 (conversation_history full_chatbot @ [Message ''user'' ''weather?''])"
proof -
  have reach: "conversation (sample_env ten_then_malformed offline) (take 10 eleven_inputs)
      fresh_chatbot = full_chatbot"
    by (simp add: eleven_inputs_def fresh_chatbot_def full_chatbot_def ok_turn)
  have turn: "process_message (sample_env ten_then_malformed offline) ''weather?'' full_chatbot
     = (Inr (''Error processing message: ''
             @ ''Expecting property name enclosed in double quotes: line 1 column 2 (char 1)''),
        full_chatbot\<lparr>outside := 11,
          conversation_history :=
            conversation_history full_chatbot @ [Message ''user'' ''weather?'']\<rparr>)"
    by (simp add: full_chatbot_def malformed_turn)
  have len: "length (conversation_history full_chatbot @ [Message ''user'' ''weather?'']) = 21"
    by (simp add: full_chatbot_def)
  have "length (conversation_history
     (snd (process_message (sample_env ten_then_malformed offline) ''weather?'' full_chatbot)))
     \<noteq> length (drop 1 (conversation_history full_chatbot @ [Message ''user'' ''weather?'']))"
    unfolding turn by (simp add: full_chatbot_def)
  then have differ: "conversation_history
     (snd (process_message (sample_env ten_then_malformed offline) ''weather?'' full_chatbot))
     \<noteq> drop 1 (conversation_history full_chatbot @ [Message ''user'' ''weather?''])"
    by metis
  have oldest: "hd (conversation_history
         (snd (process_message (sample_env ten_then_malformed offline) ''weather?''
                 full_chatbot)))
     = Message ''user'' ''hi''"
    unfolding turn by (simp add: full_chatbot_def)
  from reach len turn oldest differ show ?thesis by blast
qed

end
